theory Spec2Isabelle
  imports Complex_Main "HOL-Library.Sublist"
begin

section \<open>C++ values shared by all translation units\<close>

subsection \<open>The type double, as far as the code looks at it\<close>

text \<open>
  The functions modelled here compare doubles (\<^verbatim>\<open><=\<close>, \<^verbatim>\<open><\<close>, \<^verbatim>\<open>>\<close>) and take
  \<^verbatim>\<open>std::fabs\<close>; they never add, multiply or round one. A double is therefore a
  finite value, an infinity or a NaN; both zeros are \<open>Finite 0\<close> (they compare equal and
  \<^verbatim>\<open>fabs\<close> maps both to \<open>+0.0\<close>). Every comparison with a NaN is false, as in IEEE 754.
\<close>

datatype double = Finite real | PInf | NInf | NaN

fun dlt :: "double \<Rightarrow> double \<Rightarrow> bool" where
  "dlt (Finite a) (Finite b) = (a < b)"
| "dlt (Finite a) PInf = True"
| "dlt NInf (Finite b) = True"
| "dlt NInf PInf = True"
| "dlt _ _ = False"

fun dle :: "double \<Rightarrow> double \<Rightarrow> bool" where
  "dle (Finite a) (Finite b) = (a \<le> b)"
| "dle (Finite a) PInf = True"
| "dle NInf (Finite b) = True"
| "dle NInf PInf = True"
| "dle NInf NInf = True"
| "dle PInf PInf = True"
| "dle _ _ = False"

definition dgt :: "double \<Rightarrow> double \<Rightarrow> bool" where
  "dgt a b = dlt b a"

fun fabs :: "double \<Rightarrow> double" where
  "fabs (Finite a) = Finite \<bar>a\<bar>"
| "fabs PInf = PInf"
| "fabs NInf = PInf"
| "fabs NaN = NaN"

subsection \<open>Exceptions\<close>

text \<open>
  The exceptions of the sources all derive from \<^verbatim>\<open>std::exception\<close>:
  \<^verbatim>\<open>std::invalid_argument\<close> (validation), \<^verbatim>\<open>std::runtime_error\<close> (libcurl failures)
  and whatever \<^verbatim>\<open>std::exception\<close> a gateway implementation throws. A function that can
  throw returns \<open>exn + 'a\<close>, \<open>Inl\<close> the exception.
\<close>

datatype exn = invalid_argument string | runtime_error string | std_exception string

fun what :: "exn \<Rightarrow> string" where
  "what (invalid_argument m) = m"
| "what (runtime_error m) = m"
| "what (std_exception m) = m"

subsection \<open>Decimal output of an integer\<close>

text \<open>
  \<^verbatim>\<open>operator<<(int)\<close> and \<^verbatim>\<open>std::to_string(long)\<close>: decimal digits, a minus sign first
  for a negative value. The C++ \<^verbatim>\<open>int\<close> and \<^verbatim>\<open>long\<close> values of the sources (order ids,
  HTTP status codes, the count of orders sent) are of type \<open>int\<close> here: the code only
  compares them, passes them on and counts up from zero.
\<close>

definition digit_char :: "nat \<Rightarrow> char" where
  "digit_char n = ''0123456789'' ! (n mod 10)"

function dec_digits :: "nat \<Rightarrow> string" where
  "dec_digits n = (if n < 10 then [digit_char n] else dec_digits (n div 10) @ [digit_char n])"
  by pat_completeness auto
termination
  by (relation "measure id") auto

declare dec_digits.simps [simp del]

definition to_string :: "int \<Rightarrow> string" where
  "to_string i = (if i < 0 then CHR ''-'' # dec_digits (nat (- i)) else dec_digits (nat i))"

section \<open>StrategyTemplate.hpp: the order model and the dispatch layer\<close>

datatype Side = Buy | Sell

datatype TimeInForce = Day | GTC | IOC | FOK

record OrderResult =
  or_orderId :: string
  or_accepted :: bool
  or_message :: string

record PositionCloseResult =
  pcr_success :: bool
  pcr_message :: string

record MarketOrder =
  mo_symbol :: string
  mo_side :: Side
  mo_qty :: double
  mo_tif :: TimeInForce

record LimitOrder =
  lo_symbol :: string
  lo_side :: Side
  lo_qty :: double
  lo_limitPrice :: double
  lo_tif :: TimeInForce

record StopOrder =
  so_symbol :: string
  so_side :: Side
  so_qty :: double
  so_stopPrice :: double
  so_tif :: TimeInForce

record ShortOrder =
  sh_symbol :: string
  sh_qty :: double
  sh_tif :: TimeInForce

text \<open>
  \<^verbatim>\<open>template <class Derived> class StrategyTemplate\<close>: the bound adapter is the template
  parameter. Its \<^verbatim>\<open>*_Impl\<close> members are the fields of the record below; each runs on the
  adapter's state \<open>'a\<close> (the broker session, a call log, ...) and may throw. Time points
  are ticks of the system clock.
\<close>

type_synonym SysTime = int

record 'a Derived =
  PlaceMarketOrder_Impl :: "MarketOrder \<Rightarrow> 'a \<Rightarrow> (exn + OrderResult) \<times> 'a"
  PlaceShortOrder_Impl :: "ShortOrder \<Rightarrow> 'a \<Rightarrow> (exn + OrderResult) \<times> 'a"
  PlaceStopOrder_Impl :: "StopOrder \<Rightarrow> 'a \<Rightarrow> (exn + OrderResult) \<times> 'a"
  PlaceLimitOrder_Impl :: "LimitOrder \<Rightarrow> 'a \<Rightarrow> (exn + OrderResult) \<times> 'a"
  CloseAllPositions_Impl :: "'a \<Rightarrow> (exn + PositionCloseResult) \<times> 'a"
  IsMarketOpen_Impl :: "'a \<Rightarrow> (exn + bool) \<times> 'a"
  GetNextMarketOpenTime_Impl :: "'a \<Rightarrow> (exn + SysTime option) \<times> 'a"

definition validate_basic :: "string \<Rightarrow> double \<Rightarrow> exn + unit" where
  "validate_basic symbol qty =
     (if symbol = [] then Inl (invalid_argument ''symbol must not be empty'')
      else if dle qty (Finite 0) then Inl (invalid_argument ''qty must be > 0'')
      else Inr ())"

definition PlaceMarketOrder ::
  "'a Derived \<Rightarrow> MarketOrder \<Rightarrow> 'a \<Rightarrow> (exn + OrderResult) \<times> 'a" where
  "PlaceMarketOrder d ord s =
     (case validate_basic (mo_symbol ord) (mo_qty ord) of
        Inl e \<Rightarrow> (Inl e, s)
      | Inr _ \<Rightarrow> PlaceMarketOrder_Impl d ord s)"

definition PlaceShortOrder ::
  "'a Derived \<Rightarrow> ShortOrder \<Rightarrow> 'a \<Rightarrow> (exn + OrderResult) \<times> 'a" where
  "PlaceShortOrder d ord s =
     (case validate_basic (sh_symbol ord) (sh_qty ord) of
        Inl e \<Rightarrow> (Inl e, s)
      | Inr _ \<Rightarrow> PlaceShortOrder_Impl d ord s)"

definition PlaceStopOrder ::
  "'a Derived \<Rightarrow> StopOrder \<Rightarrow> 'a \<Rightarrow> (exn + OrderResult) \<times> 'a" where
  "PlaceStopOrder d ord s =
     (case validate_basic (so_symbol ord) (so_qty ord) of
        Inl e \<Rightarrow> (Inl e, s)
      | Inr _ \<Rightarrow>
          if dle (so_stopPrice ord) (Finite 0)
          then (Inl (invalid_argument ''stopPrice must be > 0''), s)
          else PlaceStopOrder_Impl d ord s)"

definition PlaceLimitOrder ::
  "'a Derived \<Rightarrow> LimitOrder \<Rightarrow> 'a \<Rightarrow> (exn + OrderResult) \<times> 'a" where
  "PlaceLimitOrder d ord s =
     (case validate_basic (lo_symbol ord) (lo_qty ord) of
        Inl e \<Rightarrow> (Inl e, s)
      | Inr _ \<Rightarrow>
          if dle (lo_limitPrice ord) (Finite 0)
          then (Inl (invalid_argument ''limitPrice must be > 0''), s)
          else PlaceLimitOrder_Impl d ord s)"

definition CloseAllPositions :: "'a Derived \<Rightarrow> 'a \<Rightarrow> (exn + PositionCloseResult) \<times> 'a" where
  "CloseAllPositions d s = CloseAllPositions_Impl d s"

definition IsMarketOpen :: "'a Derived \<Rightarrow> 'a \<Rightarrow> (exn + bool) \<times> 'a" where
  "IsMarketOpen d s = IsMarketOpen_Impl d s"

definition GetNextMarketOpenTime :: "'a Derived \<Rightarrow> 'a \<Rightarrow> (exn + SysTime option) \<times> 'a" where
  "GetNextMarketOpenTime d s = GetNextMarketOpenTime_Impl d s"

text \<open>
  A recording adapter: every \<^verbatim>\<open>*_Impl\<close> member appends the call it received to the
  list of calls that is its state, and accepts.
\<close>

datatype adapter_call =
    MarketCall MarketOrder
  | ShortCall ShortOrder
  | StopCall StopOrder
  | LimitCall LimitOrder
  | CloseAllCall
  | IsOpenCall
  | NextOpenCall

definition echo_result :: OrderResult where
  "echo_result = \<lparr>or_orderId = ''adapter-id'', or_accepted = True, or_message = ''Accepted''\<rparr>"

definition recording_adapter :: "adapter_call list Derived" where
  "recording_adapter =
     \<lparr>PlaceMarketOrder_Impl = (\<lambda>ord calls. (Inr echo_result, calls @ [MarketCall ord])),
      PlaceShortOrder_Impl = (\<lambda>ord calls. (Inr echo_result, calls @ [ShortCall ord])),
      PlaceStopOrder_Impl = (\<lambda>ord calls. (Inr echo_result, calls @ [StopCall ord])),
      PlaceLimitOrder_Impl = (\<lambda>ord calls. (Inr echo_result, calls @ [LimitCall ord])),
      CloseAllPositions_Impl =
        (\<lambda>calls. (Inr \<lparr>pcr_success = True, pcr_message = ''Closed''\<rparr>, calls @ [CloseAllCall])),
      IsMarketOpen_Impl = (\<lambda>calls. (Inr True, calls @ [IsOpenCall])),
      GetNextMarketOpenTime_Impl = (\<lambda>calls. (Inr None, calls @ [NextOpenCall]))\<rparr>"

section \<open>ChineseStrategy.hpp and ChineseStrategy.cpp\<close>

text \<open>
  ChineseStrategy.hpp declares order types of its own under the names StrategyTemplate.hpp
  uses; here they carry the prefix \<open>CN_\<close>, and every field a prefix for its struct.
\<close>

record Instrument =
  i_symbol :: string
  i_secType :: string
  i_exchange :: string
  i_currency :: string
  i_lastTradeDateOrContractMonth :: string
  i_tradingClass :: string
  i_multiplier :: string

record CN_MarketOrder =
  cmo_instrument :: Instrument
  cmo_quantity :: double
  cmo_isBuy :: bool
  cmo_tif :: string

record CN_ShortOrder =
  csh_instrument :: Instrument
  csh_quantity :: double
  csh_tif :: string

record CN_StopOrder =
  cso_instrument :: Instrument
  cso_quantity :: double
  cso_isBuy :: bool
  cso_stopPrice :: double
  cso_tif :: string

record CN_LimitOrder =
  clo_instrument :: Instrument
  clo_quantity :: double
  clo_isBuy :: bool
  clo_limitPrice :: double
  clo_tif :: string

record CN_OrderResult =
  cr_ok :: bool
  cr_orderId :: int
  cr_message :: string

record CN_PositionCloseResult =
  pc_ok :: bool
  pc_closeOrdersSent :: int
  pc_orderIds :: "int list"
  pc_message :: string

record OpenPosition =
  op_instrument :: Instrument
  op_position :: double
  op_avgCost :: double

text \<open>
  \<^verbatim>\<open>Contract\<close> and \<^verbatim>\<open>Order\<close> are the broker library's structs (Contract.h, Order.h);
  the records hold the members ChineseStrategy.cpp writes. The strings of a fresh
  \<^verbatim>\<open>Contract\<close> are empty. A price member of an \<^verbatim>\<open>Order\<close> that the code does not assign
  keeps the library's initial value, written \<open>None\<close>. \<^verbatim>\<open>totalQuantity\<close> is compared with
  \<open>0\<close> and assigned from a double, and is a double here.
\<close>

record Contract =
  c_symbol :: string
  c_secType :: string
  c_exchange :: string
  c_currency :: string
  c_lastTradeDateOrContractMonth :: string
  c_tradingClass :: string
  c_multiplier :: string

record Order =
  o_action :: string
  o_orderType :: string
  o_totalQuantity :: double
  o_tif :: string
  o_auxPrice :: "double option"
  o_lmtPrice :: "double option"

text \<open>
  \<^verbatim>\<open>class IIbkrGateway\<close>: three virtual members, implemented elsewhere. Each runs on
  the gateway's state \<open>'g\<close> and may throw a \<^verbatim>\<open>std::exception\<close>.
\<close>

record 'g IIbkrGateway =
  nextOrderId :: "'g \<Rightarrow> (exn + int) \<times> 'g"
  placeOrder :: "int \<Rightarrow> Contract \<Rightarrow> Order \<Rightarrow> 'g \<Rightarrow> (exn + unit) \<times> 'g"
  getOpenPositionsSnapshot :: "'g \<Rightarrow> (exn + OpenPosition list) \<times> 'g"

definition ActionFromBuy :: "bool \<Rightarrow> string" where
  "ActionFromBuy isBuy = (if isBuy then ''BUY'' else ''SELL'')"

definition BuildContract :: "Instrument \<Rightarrow> Contract" where
  "BuildContract i =
     (let c = \<lparr>c_symbol = i_symbol i, c_secType = i_secType i, c_exchange = i_exchange i,
               c_currency = i_currency i, c_lastTradeDateOrContractMonth = [],
               c_tradingClass = [], c_multiplier = []\<rparr>
      in if i_secType i = ''FUT''
         then (let c1 = c\<lparr>c_lastTradeDateOrContractMonth := i_lastTradeDateOrContractMonth i\<rparr>;
                   c2 = (if i_tradingClass i \<noteq> [] then c1\<lparr>c_tradingClass := i_tradingClass i\<rparr> else c1)
               in if i_multiplier i \<noteq> [] then c2\<lparr>c_multiplier := i_multiplier i\<rparr> else c2)
         else c)"

text \<open>
  \<^verbatim>\<open>SendOrder\<close>: the quantity check, then \<^verbatim>\<open>nextOrderId\<close> and \<^verbatim>\<open>placeOrder\<close> inside
  the \<^verbatim>\<open>try\<close> block. A result starts as \<^verbatim>\<open>{ok = false, orderId = -1}\<close>; the handler
  sets \<^verbatim>\<open>ok\<close> and \<^verbatim>\<open>message\<close> only.
\<close>

definition SendOrder ::
  "'g IIbkrGateway \<Rightarrow> Contract \<Rightarrow> Order \<Rightarrow> 'g \<Rightarrow> CN_OrderResult \<times> 'g" where
  "SendOrder gw c ord g =
     (if dle (o_totalQuantity ord) (Finite 0)
      then (\<lparr>cr_ok = False, cr_orderId = - 1, cr_message = ''Quantity must be > 0''\<rparr>, g)
      else
        (case nextOrderId gw g of
           (Inl e, g1) \<Rightarrow>
             (\<lparr>cr_ok = False, cr_orderId = - 1,
               cr_message = ''Failed to send order: '' @ what e\<rparr>, g1)
         | (Inr orderId, g1) \<Rightarrow>
             (case placeOrder gw orderId c ord g1 of
                (Inl e, g2) \<Rightarrow>
                  (\<lparr>cr_ok = False, cr_orderId = - 1,
                    cr_message = ''Failed to send order: '' @ what e\<rparr>, g2)
              | (Inr _, g2) \<Rightarrow>
                  (\<lparr>cr_ok = True, cr_orderId = orderId,
                    cr_message =
                      ''Order sent to IBKR (acceptance/fill is async via EWrapper callbacks)''\<rparr>,
                   g2))))"

definition ChineseStrategy_PlaceMarketOrder_Impl ::
  "'g IIbkrGateway \<Rightarrow> CN_MarketOrder \<Rightarrow> 'g \<Rightarrow> CN_OrderResult \<times> 'g" where
  "ChineseStrategy_PlaceMarketOrder_Impl gw inp g =
     SendOrder gw (BuildContract (cmo_instrument inp))
       \<lparr>o_action = ActionFromBuy (cmo_isBuy inp), o_orderType = ''MKT'',
        o_totalQuantity = cmo_quantity inp, o_tif = cmo_tif inp,
        o_auxPrice = None, o_lmtPrice = None\<rparr> g"

definition ChineseStrategy_PlaceShortOrder_Impl ::
  "'g IIbkrGateway \<Rightarrow> CN_ShortOrder \<Rightarrow> 'g \<Rightarrow> CN_OrderResult \<times> 'g" where
  "ChineseStrategy_PlaceShortOrder_Impl gw inp g =
     SendOrder gw (BuildContract (csh_instrument inp))
       \<lparr>o_action = ''SELL'', o_orderType = ''MKT'',
        o_totalQuantity = csh_quantity inp, o_tif = csh_tif inp,
        o_auxPrice = None, o_lmtPrice = None\<rparr> g"

definition ChineseStrategy_PlaceStopOrder_Impl ::
  "'g IIbkrGateway \<Rightarrow> CN_StopOrder \<Rightarrow> 'g \<Rightarrow> CN_OrderResult \<times> 'g" where
  "ChineseStrategy_PlaceStopOrder_Impl gw inp g =
     (if \<not> dgt (cso_stopPrice inp) (Finite 0)
      then (\<lparr>cr_ok = False, cr_orderId = - 1, cr_message = ''StopPrice must be > 0''\<rparr>, g)
      else SendOrder gw (BuildContract (cso_instrument inp))
             \<lparr>o_action = ActionFromBuy (cso_isBuy inp), o_orderType = ''STP'',
              o_totalQuantity = cso_quantity inp, o_tif = cso_tif inp,
              o_auxPrice = Some (cso_stopPrice inp), o_lmtPrice = None\<rparr> g)"

definition ChineseStrategy_PlaceLimitOrder_Impl ::
  "'g IIbkrGateway \<Rightarrow> CN_LimitOrder \<Rightarrow> 'g \<Rightarrow> CN_OrderResult \<times> 'g" where
  "ChineseStrategy_PlaceLimitOrder_Impl gw inp g =
     (if \<not> dgt (clo_limitPrice inp) (Finite 0)
      then (\<lparr>cr_ok = False, cr_orderId = - 1, cr_message = ''LimitPrice must be > 0''\<rparr>, g)
      else SendOrder gw (BuildContract (clo_instrument inp))
             \<lparr>o_action = ActionFromBuy (clo_isBuy inp), o_orderType = ''LMT'',
              o_totalQuantity = clo_quantity inp, o_tif = clo_tif inp,
              o_auxPrice = None, o_lmtPrice = Some (clo_limitPrice inp)\<rparr> g)"

text \<open>
  The literal \<^verbatim>\<open>1e-12\<close> is the double nearest to \<open>10\<^sup>-\<^sup>1\<^sup>2\<close>:
  \<^verbatim>\<open>0x1.19799812dea11p-40\<close>, that is \<open>4951760157141521 / 2\<^sup>9\<^sup>2\<close>.
\<close>

definition lit_1e_12 :: double where
  "lit_1e_12 = Finite (4951760157141521 / 2 ^ 92)"

text \<open>
  The body of the loop of \<^verbatim>\<open>CloseAllPositions_Impl\<close> up to the call: \<^verbatim>\<open>continue\<close>
  (no order, \<open>None\<close>) or the market order \<^verbatim>\<open>mo\<close> built for the position.
\<close>

definition closing_order :: "OpenPosition \<Rightarrow> CN_MarketOrder option" where
  "closing_order p =
     (if dlt (fabs (op_position p)) lit_1e_12 then None
      else
        (let closeBuy = dlt (op_position p) (Finite 0)
         in Some \<lparr>cmo_instrument = op_instrument p, cmo_quantity = fabs (op_position p),
                  cmo_isBuy = closeBuy, cmo_tif = ''DAY''\<rparr>))"

text \<open>
  The loop \<^verbatim>\<open>for (const auto& p : positions)\<close>, with the locals \<^verbatim>\<open>sent\<close> and
  \<^verbatim>\<open>orderIds\<close> as accumulators. \<^verbatim>\<open>sent\<close> is a C++ \<^verbatim>\<open>int\<close>; it overflows only after
  \<open>2\<^sup>3\<^sup>1\<close> accepted orders in one sweep, which is undefined behaviour and outside this
  model.
\<close>

fun close_loop ::
  "'g IIbkrGateway \<Rightarrow> OpenPosition list \<Rightarrow> int \<Rightarrow> int list \<Rightarrow> 'g \<Rightarrow> int \<times> int list \<times> 'g" where
  "close_loop gw [] sent orderIds g = (sent, orderIds, g)"
| "close_loop gw (p # positions) sent orderIds g =
     (case closing_order p of
        None \<Rightarrow> close_loop gw positions sent orderIds g
      | Some mo \<Rightarrow>
          (case ChineseStrategy_PlaceMarketOrder_Impl gw mo g of
             (res, g1) \<Rightarrow>
               if cr_ok res
               then close_loop gw positions (sent + 1) (orderIds @ [cr_orderId res]) g1
               else close_loop gw positions sent orderIds g1))"

definition ChineseStrategy_CloseAllPositions_Impl ::
  "'g IIbkrGateway \<Rightarrow> 'g \<Rightarrow> CN_PositionCloseResult \<times> 'g" where
  "ChineseStrategy_CloseAllPositions_Impl gw g =
     (case getOpenPositionsSnapshot gw g of
        (Inl e, g1) \<Rightarrow>
          (\<lparr>pc_ok = False, pc_closeOrdersSent = 0, pc_orderIds = [],
            pc_message = ''Failed to fetch positions: '' @ what e\<rparr>, g1)
      | (Inr positions, g1) \<Rightarrow>
          (case close_loop gw positions 0 [] g1 of
             (sent, orderIds, g2) \<Rightarrow>
               (\<lparr>pc_ok = True, pc_closeOrdersSent = sent, pc_orderIds = orderIds,
                 pc_message =
                   ''CloseAllPositions: sent '' @ to_string sent @ '' market close orders.''\<rparr>,
                g2)))"

text \<open>
  The values of \<^verbatim>\<open>res\<close> in the loop of one sweep, in the order of the calls: what
  \<^verbatim>\<open>PlaceMarketOrder_Impl\<close> returned for each position that was not skipped, the gateway
  state threaded from call to call as in \<open>close_loop\<close>.
\<close>

fun sweep_results :: "'g IIbkrGateway \<Rightarrow> OpenPosition list \<Rightarrow> 'g \<Rightarrow> CN_OrderResult list" where
  "sweep_results gw [] g = []"
| "sweep_results gw (p # positions) g =
     (case closing_order p of
        None \<Rightarrow> sweep_results gw positions g
      | Some mo \<Rightarrow>
          (case ChineseStrategy_PlaceMarketOrder_Impl gw mo g of
             (res, g1) \<Rightarrow> res # sweep_results gw positions g1))"

subsection \<open>Gateways to observe the strategy with\<close>

text \<open>
  \<open>recording gw\<close> behaves as the gateway \<open>gw\<close> and keeps, beside the state of \<open>gw\<close>, the
  list of the \<^verbatim>\<open>placeOrder\<close> calls it received, oldest first.
\<close>

type_synonym placed = "int \<times> Contract \<times> Order"

definition recording :: "'g IIbkrGateway \<Rightarrow> ('g \<times> placed list) IIbkrGateway" where
  "recording gw =
     \<lparr>nextOrderId = (\<lambda>(g, calls). case nextOrderId gw g of (r, g1) \<Rightarrow> (r, (g1, calls))),
      placeOrder = (\<lambda>orderId c ord (g, calls).
        case placeOrder gw orderId c ord g of
          (r, g1) \<Rightarrow> (r, (g1, calls @ [(orderId, c, ord)]))),
      getOpenPositionsSnapshot =
        (\<lambda>(g, calls). case getOpenPositionsSnapshot gw g of (r, g1) \<Rightarrow> (r, (g1, calls)))\<rparr>"

text \<open>
  A gateway accepts all orders when neither \<^verbatim>\<open>nextOrderId\<close> nor \<^verbatim>\<open>placeOrder\<close> ever
  throws. A gateway rejects all orders when every \<^verbatim>\<open>SendOrder\<close> through it comes back
  with \<^verbatim>\<open>ok = false\<close>.
\<close>

definition accepts_all :: "'g IIbkrGateway \<Rightarrow> bool" where
  "accepts_all gw =
     ((\<forall>g. \<not> isl (fst (nextOrderId gw g))) \<and>
      (\<forall>orderId c ord g. \<not> isl (fst (placeOrder gw orderId c ord g))))"

definition rejects_all :: "'g IIbkrGateway \<Rightarrow> bool" where
  "rejects_all gw = (\<forall>c ord g. \<not> cr_ok (fst (SendOrder gw c ord g)))"

text \<open>
  A small simulated broker: order ids count up from \<open>sim_next\<close>, \<^verbatim>\<open>placeOrder\<close> throws
  for a contract whose symbol satisfies \<open>reject\<close>, and the snapshot call returns
  \<open>sim_snapshot\<close> (positions, or the exception it throws).
\<close>

record sim_state =
  sim_next :: int
  sim_snapshot :: "exn + OpenPosition list"

definition sim_gateway :: "(string \<Rightarrow> bool) \<Rightarrow> sim_state IIbkrGateway" where
  "sim_gateway reject =
     \<lparr>nextOrderId = (\<lambda>g. (Inr (sim_next g), g\<lparr>sim_next := sim_next g + 1\<rparr>)),
      placeOrder = (\<lambda>orderId c ord g.
        (if reject (c_symbol c) then Inl (std_exception ''rejected'') else Inr (), g)),
      getOpenPositionsSnapshot = (\<lambda>g. (sim_snapshot g, g))\<rparr>"

text \<open>A gateway without a connection: every member throws.\<close>

definition offline_gateway :: "unit IIbkrGateway" where
  "offline_gateway =
     \<lparr>nextOrderId = (\<lambda>g. (Inl (std_exception ''not connected''), g)),
      placeOrder = (\<lambda>orderId c ord g. (Inl (std_exception ''not connected''), g)),
      getOpenPositionsSnapshot = (\<lambda>g. (Inl (std_exception ''not connected''), g))\<rparr>"

definition stock :: "string \<Rightarrow> Instrument" where
  "stock s = \<lparr>i_symbol = s, i_secType = ''STK'', i_exchange = ''SEHK'', i_currency = ''HKD'',
              i_lastTradeDateOrContractMonth = [], i_tradingClass = [], i_multiplier = []\<rparr>"

definition holding :: "string \<Rightarrow> double \<Rightarrow> OpenPosition" where
  "holding s q = \<lparr>op_instrument = stock s, op_position = q, op_avgCost = Finite 1\<rparr>"

section \<open>AlpacaStrategy.cpp: the order-result parser\<close>

text \<open>
  \<^verbatim>\<open>std::string::find(key)\<close> is the index of the first occurrence of \<open>key\<close>, or
  \<^verbatim>\<open>npos\<close> (\<open>None\<close>). \<^verbatim>\<open>find(c, pos)\<close> is the first index \<open>\<ge> pos\<close> holding the character
  \<open>c\<close>; past the end of the string there is none. \<^verbatim>\<open>substr(pos, n)\<close> throws when
  \<open>pos\<close> is beyond the size of the string; the parser calls it with the position just after
  an occurrence of the key, which never is (\<open>find_str_bound\<close> below).
\<close>

fun find_str :: "string \<Rightarrow> string \<Rightarrow> nat option" where
  "find_str [] key = (if key = [] then Some 0 else None)"
| "find_str (x # xs) key =
     (if prefix key (x # xs) then Some 0 else map_option Suc (find_str xs key))"

fun index_of :: "char \<Rightarrow> string \<Rightarrow> nat option" where
  "index_of c [] = None"
| "index_of c (x # xs) = (if x = c then Some 0 else map_option Suc (index_of c xs))"

definition find_char :: "string \<Rightarrow> char \<Rightarrow> nat \<Rightarrow> nat option" where
  "find_char s c pos = map_option (\<lambda>k. pos + k) (index_of c (drop pos s))"

definition substr :: "string \<Rightarrow> nat \<Rightarrow> nat \<Rightarrow> string" where
  "substr s pos n = take n (drop pos s)"

text \<open>The key \<^verbatim>\<open>"\"id\":\""\<close>: six characters, a double quote being \<open>CHR 0x22\<close>.\<close>

definition id_key :: string where
  "id_key = [CHR 0x22, CHR ''i'', CHR ''d'', CHR 0x22, CHR '':'', CHR 0x22]"

definition parse_order_result :: "int \<Rightarrow> string \<Rightarrow> OrderResult" where
  "parse_order_result status resp =
     (if 200 \<le> status \<and> status < 300
      then
        (let ident =
           (case find_str resp id_key of
              None \<Rightarrow> []
            | Some found \<Rightarrow>
                (let pos = found + length id_key
                 in case find_char resp (CHR 0x22) pos of
                      None \<Rightarrow> []
                    | Some end \<Rightarrow> substr resp pos (end - pos)))
         in \<lparr>or_orderId = ident, or_accepted = True, or_message = ''Accepted''\<rparr>)
      else \<lparr>or_orderId = [], or_accepted = False,
             or_message = ''Order failed: HTTP '' @ to_string status @ '' '' @ resp\<rparr>)"

section \<open>liveloop.hpp: the market-session scheduler\<close>

datatype Market = US | CN | NONE

record MarketPick =
  mp_market :: Market
  mp_symbol :: string

record Candle =
  cd_t :: string
  cd_o :: double
  cd_h :: double
  cd_l :: double
  cd_c :: double
  cd_v :: int
  cd_ok :: bool
  cd_raw :: string

text \<open>\<^verbatim>\<open>Candle{.ok = ..., .raw = ...}\<close>: the other members keep their initial values.\<close>

definition Candle_ok_raw :: "bool \<Rightarrow> string \<Rightarrow> Candle" where
  "Candle_ok_raw ok raw =
     \<lparr>cd_t = [], cd_o = Finite 0, cd_h = Finite 0, cd_l = Finite 0, cd_c = Finite 0, cd_v = 0,
      cd_ok = ok, cd_raw = raw\<rparr>"

text \<open>
  \<^verbatim>\<open>template <class AlpacaApi>\<close>: the members the loop calls on its parameter. \<^verbatim>\<open>http_get\<close>
  returns a status and a body or throws (in AlpacaStrategy.cpp, \<^verbatim>\<open>http_req\<close> throws
  \<^verbatim>\<open>std::runtime_error\<close> when libcurl reports a failure); \<^verbatim>\<open>IsMarketOpen\<close> may throw as
  well. Both run on the state \<open>'w\<close> of the outside world.
\<close>

record 'w AlpacaApi =
  api_IsMarketOpen :: "'w \<Rightarrow> (exn + bool) \<times> 'w"
  http_get :: "string \<Rightarrow> 'w \<Rightarrow> (exn + int \<times> string) \<times> 'w"
  trading_base_url :: string
  data_base_url :: string

text \<open>
  What liveloop.hpp uses and does not define: the system clock, \<^verbatim>\<open>gmtime\<close> (after
  \<^verbatim>\<open>to_time_t\<close>), and the function \<^verbatim>\<open>is_cn_market_open_utc\<close>, which no file of the
  repository defines and which is a parameter here.
\<close>

record tm =
  tm_year :: int
  tm_mon :: int
  tm_mday :: int
  tm_hour :: int
  tm_min :: int
  tm_sec :: int

record 'w Externals =
  system_clock_now :: "'w \<Rightarrow> SysTime \<times> 'w"
  gmtime :: "SysTime \<Rightarrow> tm"
  is_cn_market_open_utc :: "SysTime \<Rightarrow> bool"

text \<open>\<^verbatim>\<open>%0wd\<close> of printf and strftime's two-digit fields: zeros up to the width \<open>w\<close>, the
  sign counted in.\<close>

definition fmt_0d :: "nat \<Rightarrow> int \<Rightarrow> string" where
  "fmt_0d w i =
     (if i < 0
      then CHR ''-'' # replicate (w - 1 - length (dec_digits (nat (- i)))) CHR ''0'' @
             dec_digits (nat (- i))
      else replicate (w - length (dec_digits (nat i))) CHR ''0'' @ dec_digits (nat i))"

definition to_iso8601_utc :: "'w Externals \<Rightarrow> SysTime \<Rightarrow> string" where
  "to_iso8601_utc ext tp =
     (let gmt = gmtime ext tp
      in to_string (tm_year gmt + 1900) @ ''-'' @ fmt_0d 2 (tm_mon gmt + 1) @ ''-'' @
         fmt_0d 2 (tm_mday gmt) @ ''T'' @ fmt_0d 2 (tm_hour gmt) @ '':'' @
         fmt_0d 2 (tm_min gmt) @ '':'' @ fmt_0d 2 (tm_sec gmt) @ ''Z'')"

text \<open>
  The local \<^verbatim>\<open>ymd\<close> of \<^verbatim>\<open>GetFirst5MinCandle_US\<close>: \<^verbatim>\<open>snprintf\<close> into a buffer of 11
  bytes keeps at most 10 characters. Then the three request URLs of that function.
\<close>

definition utc_ymd :: "'w Externals \<Rightarrow> SysTime \<Rightarrow> string" where
  "utc_ymd ext nowUtc =
     (let gmt = gmtime ext nowUtc
      in take 10 (fmt_0d 4 (tm_year gmt + 1900) @ ''-'' @ fmt_0d 2 (tm_mon gmt + 1) @ ''-'' @
                  fmt_0d 2 (tm_mday gmt)))"

definition clock_url :: "'w AlpacaApi \<Rightarrow> string" where
  "clock_url alpaca = trading_base_url alpaca @ ''/v2/clock''"

definition calendar_url :: "'w AlpacaApi \<Rightarrow> string \<Rightarrow> string" where
  "calendar_url alpaca ymd =
     trading_base_url alpaca @ ''/v2/calendar?start='' @ ymd @ ''&end='' @ ymd"

definition bars_url :: "'w AlpacaApi \<Rightarrow> string \<Rightarrow> string \<Rightarrow> string" where
  "bars_url alpaca symbol ymd =
     data_base_url alpaca @ ''/v2/stocks/bars?symbols='' @ symbol @
       ''&timeframe=5Min&start='' @ (ymd @ ''T00:00:00Z'') @ ''&limit=1''"

definition GetFirst5MinCandle_US ::
  "'w AlpacaApi \<Rightarrow> 'w Externals \<Rightarrow> string \<Rightarrow> 'w \<Rightarrow> (exn + Candle) \<times> 'w" where
  "GetFirst5MinCandle_US alpaca ext symbol w =
     (case http_get alpaca (clock_url alpaca) w of
        (Inl e, w1) \<Rightarrow> (Inl e, w1)
      | (Inr (stClock, clockJson), w1) \<Rightarrow>
          if stClock < 200 \<or> stClock \<ge> 300
          then (Inr (Candle_ok_raw False (''clock failed: '' @ clockJson)), w1)
          else
            (case system_clock_now ext w1 of
               (nowUtc, w2) \<Rightarrow>
                 (let ymd = utc_ymd ext nowUtc
                  in case http_get alpaca (calendar_url alpaca ymd) w2 of
                       (Inl e, w3) \<Rightarrow> (Inl e, w3)
                     | (Inr (stCal, calJson), w3) \<Rightarrow>
                         if stCal < 200 \<or> stCal \<ge> 300
                         then (Inr (Candle_ok_raw False (''calendar failed: '' @ calJson)), w3)
                         else
                           (case http_get alpaca (bars_url alpaca symbol ymd) w3 of
                              (Inl e, w4) \<Rightarrow> (Inl e, w4)
                            | (Inr (stBars, barsJson), w4) \<Rightarrow>
                                (Inr (Candle_ok_raw (stBars \<ge> 200 \<and> stBars < 300) barsJson),
                                 w4)))))"

definition GetFirst5MinCandle_CN_Placeholder :: "string \<Rightarrow> Candle" where
  "GetFirst5MinCandle_CN_Placeholder symbol =
     Candle_ok_raw False ''CN market data not implemented yet''"

definition pick_market ::
  "'w AlpacaApi \<Rightarrow> 'w Externals \<Rightarrow> 'w \<Rightarrow> (exn + MarketPick) \<times> 'w" where
  "pick_market alpaca ext w =
     (case api_IsMarketOpen alpaca w of
        (Inl e, w1) \<Rightarrow> (Inl e, w1)
      | (Inr is_open, w1) \<Rightarrow>
          if is_open then (Inr \<lparr>mp_market = US, mp_symbol = ''SPY''\<rparr>, w1)
          else
            (case system_clock_now ext w1 of
               (nowUtc, w2) \<Rightarrow>
                 if is_cn_market_open_utc ext nowUtc
                 then (Inr \<lparr>mp_market = CN, mp_symbol = ''SSE''\<rparr>, w2)
                 else (Inr \<lparr>mp_market = NONE, mp_symbol = []\<rparr>, w2)))"

text \<open>
  What one pass through the body of \<^verbatim>\<open>while (true)\<close> does, as a list of events: a
  marker for each call of a sample-fetch function, the text written to \<^verbatim>\<open>std::cout\<close>, and
  the sleep in seconds. The first component of the result is the exception that left the
  body, if one did; nothing in liveloop.hpp or main.cpp catches it.
\<close>

datatype event = SampleFetch Market string | Stdout string | SleepFor nat

fun is_SampleFetch :: "event \<Rightarrow> bool" where
  "is_SampleFetch (SampleFetch m s) = True"
| "is_SampleFetch _ = False"

definition candle_line :: "'w Externals \<Rightarrow> SysTime \<Rightarrow> string \<Rightarrow> MarketPick \<Rightarrow> Candle \<Rightarrow> string" where
  "candle_line ext nowUtc market_name pick c =
     ''[UTC '' @ to_iso8601_utc ext nowUtc @ ''] '' @ market_name @
     '' open. First 5m candle ('' @ mp_symbol pick @ ''): '' @
     (if cd_ok c then ''OK'' else ''FAIL'') @ [CHR 0x0A] @ cd_raw c @ [CHR 0x0A]"

definition live_cycle ::
  "'w AlpacaApi \<Rightarrow> 'w Externals \<Rightarrow> 'w \<Rightarrow> exn option \<times> event list \<times> 'w" where
  "live_cycle alpaca ext w =
     (case system_clock_now ext w of
        (nowUtc, w0) \<Rightarrow>
          (case pick_market alpaca ext w0 of
             (Inl e, w1) \<Rightarrow> (Some e, [], w1)
           | (Inr pick, w1) \<Rightarrow>
               if mp_market pick = US
               then
                 (case GetFirst5MinCandle_US alpaca ext (mp_symbol pick) w1 of
                    (Inl e, w2) \<Rightarrow> (Some e, [SampleFetch US (mp_symbol pick)], w2)
                  | (Inr c, w2) \<Rightarrow>
                      (None,
                       [SampleFetch US (mp_symbol pick),
                        Stdout (candle_line ext nowUtc ''US'' pick c), SleepFor 30], w2))
               else if mp_market pick = CN
               then
                 (None,
                  [SampleFetch CN (mp_symbol pick),
                   Stdout (candle_line ext nowUtc ''CN'' pick
                             (GetFirst5MinCandle_CN_Placeholder (mp_symbol pick))),
                   SleepFor 30], w1)
               else
                 (None,
                  [Stdout (''[UTC '' @ to_iso8601_utc ext nowUtc @ ''] No tracked market open.'' @
                           [CHR 0x0A]),
                   SleepFor 30], w1)))"


subsection \<open>A scripted broker and clock to run the loop with\<close>

text \<open>
  The world is the number of HTTP requests made so far. \<open>sim_api\<close> answers
  \<^verbatim>\<open>IsMarketOpen\<close> with a fixed result and the \<open>k\<close>-th request with the \<open>k\<close>-th entry of
  a script, whatever the URL; past the end of the script the broker is unreachable and
  \<^verbatim>\<open>http_get\<close> throws as \<^verbatim>\<open>http_req\<close> does. \<open>sim_externals\<close> shows
  2026-01-05 00:00:00 UTC and a fixed answer of the secondary market's window.
\<close>

definition unreachable :: exn where
  "unreachable = runtime_error ''curl failed: Couldn't connect to server''"

definition sim_api :: "exn + bool \<Rightarrow> (exn + int \<times> string) list \<Rightarrow> nat AlpacaApi" where
  "sim_api is_open script =
     \<lparr>api_IsMarketOpen = (\<lambda>w. (is_open, w)),
      http_get = (\<lambda>url w. (if w < length script then script ! w else Inl unreachable, Suc w)),
      trading_base_url = ''https://paper-api.alpaca.markets'',
      data_base_url = ''https://data.alpaca.markets''\<rparr>"

definition sim_externals :: "bool \<Rightarrow> nat Externals" where
  "sim_externals cn_open =
     \<lparr>system_clock_now = (\<lambda>w. (1767571200, w)),
      gmtime = (\<lambda>t. \<lparr>tm_year = 126, tm_mon = 0, tm_mday = 5, tm_hour = 0, tm_min = 0,
                     tm_sec = 0\<rparr>),
      is_cn_market_open_utc = (\<lambda>t. cn_open)\<rparr>"

section \<open>Properties\<close>

subsection \<open>The dispatch layer\<close>

lemma validate_basic_invalid:
  "symbol = [] \<or> dle qty (Finite 0) \<Longrightarrow> \<exists>msg. validate_basic symbol qty = Inl (invalid_argument msg)"
  by (auto simp: validate_basic_def)

lemma validate_basic_cases:
  "(\<exists>msg. validate_basic symbol qty = Inl (invalid_argument msg)) \<or> validate_basic symbol qty = Inr ()"
  by (auto simp: validate_basic_def)

text \<open>
  Claim C1. An order with an empty symbol or a quantity \<open>\<le> 0\<close>, and a stop or limit order
  with a price \<open>\<le> 0\<close>, makes the dispatch member throw \<^verbatim>\<open>std::invalid_argument\<close>;
  the adapter's state comes back as it was, whatever the adapter is, so no \<^verbatim>\<open>*_Impl\<close>
  member has run (the recording adapter, whose every member appends to its list of calls,
  has recorded nothing).
\<close>

theorem dispatch_rejects_invalid_orders:
  "(mo_symbol m = [] \<or> dle (mo_qty m) (Finite 0) \<longrightarrow>
      (\<exists>msg. PlaceMarketOrder d m s = (Inl (invalid_argument msg), s))) \<and>
   (sh_symbol sh = [] \<or> dle (sh_qty sh) (Finite 0) \<longrightarrow>
      (\<exists>msg. PlaceShortOrder d sh s = (Inl (invalid_argument msg), s))) \<and>
   (so_symbol so = [] \<or> dle (so_qty so) (Finite 0) \<or> dle (so_stopPrice so) (Finite 0) \<longrightarrow>
      (\<exists>msg. PlaceStopOrder d so s = (Inl (invalid_argument msg), s))) \<and>
   (lo_symbol lo = [] \<or> dle (lo_qty lo) (Finite 0) \<or> dle (lo_limitPrice lo) (Finite 0) \<longrightarrow>
      (\<exists>msg. PlaceLimitOrder d lo s = (Inl (invalid_argument msg), s)))"
proof (intro conjI impI)
  assume "mo_symbol m = [] \<or> dle (mo_qty m) (Finite 0)"
  from validate_basic_invalid [OF this]
  show "\<exists>msg. PlaceMarketOrder d m s = (Inl (invalid_argument msg), s)"
    by (auto simp: PlaceMarketOrder_def)
next
  assume "sh_symbol sh = [] \<or> dle (sh_qty sh) (Finite 0)"
  from validate_basic_invalid [OF this]
  show "\<exists>msg. PlaceShortOrder d sh s = (Inl (invalid_argument msg), s)"
    by (auto simp: PlaceShortOrder_def)
next
  assume a: "so_symbol so = [] \<or> dle (so_qty so) (Finite 0) \<or> dle (so_stopPrice so) (Finite 0)"
  show "\<exists>msg. PlaceStopOrder d so s = (Inl (invalid_argument msg), s)"
    using a validate_basic_cases [of "so_symbol so" "so_qty so"]
      validate_basic_invalid [of "so_symbol so" "so_qty so"]
    by (auto simp: PlaceStopOrder_def)
next
  assume a: "lo_symbol lo = [] \<or> dle (lo_qty lo) (Finite 0) \<or> dle (lo_limitPrice lo) (Finite 0)"
  show "\<exists>msg. PlaceLimitOrder d lo s = (Inl (invalid_argument msg), s)"
    using a validate_basic_cases [of "lo_symbol lo" "lo_qty lo"]
      validate_basic_invalid [of "lo_symbol lo" "lo_qty lo"]
    by (auto simp: PlaceLimitOrder_def)
qed

theorem dispatch_rejects_invalid_orders_witness:
  "PlaceMarketOrder recording_adapter
      \<lparr>mo_symbol = ''SPY'', mo_side = Buy, mo_qty = Finite 0, mo_tif = Day\<rparr> [] =
     (Inl (invalid_argument ''qty must be > 0''), []) \<and>
   PlaceShortOrder recording_adapter
      \<lparr>sh_symbol = [], sh_qty = Finite 10, sh_tif = Day\<rparr> [] =
     (Inl (invalid_argument ''symbol must not be empty''), []) \<and>
   PlaceStopOrder recording_adapter
      \<lparr>so_symbol = ''SPY'', so_side = Sell, so_qty = Finite 10, so_stopPrice = Finite 0,
        so_tif = GTC\<rparr> [] =
     (Inl (invalid_argument ''stopPrice must be > 0''), []) \<and>
   PlaceLimitOrder recording_adapter
      \<lparr>lo_symbol = ''SPY'', lo_side = Buy, lo_qty = Finite 10, lo_limitPrice = Finite (- 1),
        lo_tif = Day\<rparr> [] =
     (Inl (invalid_argument ''limitPrice must be > 0''), []) \<and>
   PlaceMarketOrder recording_adapter
      \<lparr>mo_symbol = ''SPY'', mo_side = Buy, mo_qty = Finite 10, mo_tif = Day\<rparr> [] =
     (Inr echo_result,
      [MarketCall \<lparr>mo_symbol = ''SPY'', mo_side = Buy, mo_qty = Finite 10, mo_tif = Day\<rparr>])"
  using dispatch_rejects_invalid_orders [of
      "\<lparr>mo_symbol = ''SPY'', mo_side = Buy, mo_qty = Finite 0, mo_tif = Day\<rparr>"
      recording_adapter "[]"
      "\<lparr>sh_symbol = [], sh_qty = Finite 10, sh_tif = Day\<rparr>"
      "\<lparr>so_symbol = ''SPY'', so_side = Sell, so_qty = Finite 10, so_stopPrice = Finite 0,
        so_tif = GTC\<rparr>"
      "\<lparr>lo_symbol = ''SPY'', lo_side = Buy, lo_qty = Finite 10, lo_limitPrice = Finite (- 1),
        lo_tif = Day\<rparr>"]
  by (simp add: PlaceMarketOrder_def PlaceShortOrder_def PlaceStopOrder_def PlaceLimitOrder_def
      validate_basic_def recording_adapter_def)

subsection \<open>The closing sweep of ChineseStrategy\<close>

lemma dgt_not_dle: "dgt q (Finite 0) \<Longrightarrow> \<not> dle q (Finite 0)"
  by (cases q) (auto simp: dgt_def)

lemma closing_order_quantity:
  "closing_order p = Some mo \<Longrightarrow> \<not> dle (cmo_quantity mo) (Finite 0)"
  by (cases "op_position p") (auto simp: closing_order_def lit_1e_12_def Let_def split: if_splits)

lemma closing_order_None: "(closing_order p = None) = dlt (fabs (op_position p)) lit_1e_12"
  by (simp add: closing_order_def Let_def)

lemma SendOrder_recording:
  "SendOrder (recording gw) c ord (g, calls) =
     (if dle (o_totalQuantity ord) (Finite 0) then (fst (SendOrder gw c ord g), (g, calls))
      else case nextOrderId gw g of
        (Inl e, g1) \<Rightarrow> (fst (SendOrder gw c ord g), (snd (SendOrder gw c ord g), calls))
      | (Inr orderId, g1) \<Rightarrow> (fst (SendOrder gw c ord g), (snd (SendOrder gw c ord g), calls @ [(orderId, c, ord)])))"
  by (auto simp: SendOrder_def recording_def split: prod.splits sum.splits)

lemma accepts_all_next:
  assumes "accepts_all gw"
  shows "\<exists>orderId g1. nextOrderId gw g = (Inr orderId, g1)"
proof -
  from assms have "\<not> isl (fst (nextOrderId gw g))" by (simp add: accepts_all_def)
  then show ?thesis by (cases "nextOrderId gw g"; cases "fst (nextOrderId gw g)") auto
qed

lemma accepts_all_place:
  assumes "accepts_all gw"
  shows "\<exists>g2. placeOrder gw orderId c ord g = (Inr (), g2)"
proof -
  from assms have "\<not> isl (fst (placeOrder gw orderId c ord g))" by (simp add: accepts_all_def)
  then show ?thesis
    by (cases "placeOrder gw orderId c ord g"; cases "fst (placeOrder gw orderId c ord g)") auto
qed

lemma SendOrder_accepting:
  assumes "accepts_all gw" "\<not> dle (o_totalQuantity ord) (Finite 0)"
  shows "\<exists>orderId g2. SendOrder (recording gw) c ord (g, calls) =
     (\<lparr>cr_ok = True, cr_orderId = orderId,
        cr_message = ''Order sent to IBKR (acceptance/fill is async via EWrapper callbacks)''\<rparr>,
      (g2, calls @ [(orderId, c, ord)]))"
proof -
  obtain orderId g1 where n: "nextOrderId gw g = (Inr orderId, g1)"
    using accepts_all_next [OF assms(1)] by blast
  obtain g2 where p: "placeOrder gw orderId c ord g1 = (Inr (), g2)"
    using accepts_all_place [OF assms(1)] by blast
  show ?thesis using assms(2) n p
    by (simp add: SendOrder_def recording_def)
qed

lemma close_loop_accepting:
  assumes "accepts_all gw"
  shows "\<exists>new g2. close_loop (recording gw) positions sent orderIds (g, calls) =
            (sent + int (length new), orderIds @ map fst new, (g2, calls @ new)) \<and>
          map snd new =
            map (\<lambda>p. (BuildContract (op_instrument p),
                       \<lparr>o_action = (if dlt (op_position p) (Finite 0) then ''BUY'' else ''SELL''),
                        o_orderType = ''MKT'', o_totalQuantity = fabs (op_position p),
                        o_tif = ''DAY'', o_auxPrice = None, o_lmtPrice = None\<rparr>))
              (filter (\<lambda>p. \<not> dlt (fabs (op_position p)) lit_1e_12) positions)"
    (is "\<exists>new g2. _ \<and> map snd new = map ?req (filter ?keep positions)")
proof (induction positions arbitrary: sent orderIds g calls)
  case Nil
  show ?case by simp
next
  case (Cons p positions)
  show ?case
  proof (cases "closing_order p")
    case None
    then have skip: "dlt (fabs (op_position p)) lit_1e_12" by (simp add: closing_order_None)
    from Cons.IH [of sent orderIds g calls] None skip show ?thesis by simp
  next
    case (Some mo)
    then have keep: "\<not> dlt (fabs (op_position p)) lit_1e_12"
      using closing_order_None [of p] by simp
    have mo: "mo = \<lparr>cmo_instrument = op_instrument p, cmo_quantity = fabs (op_position p),
                  cmo_isBuy = dlt (op_position p) (Finite 0), cmo_tif = ''DAY''\<rparr>"
      using Some keep by (simp add: closing_order_def Let_def)
    let ?c = "fst (?req p)" and ?ord = "snd (?req p)"
    have q: "\<not> dle (o_totalQuantity ?ord) (Finite 0)"
      using closing_order_quantity [OF Some] mo by simp
    obtain orderId g1 where s: "SendOrder (recording gw) ?c ?ord (g, calls) =
       (\<lparr>cr_ok = True, cr_orderId = orderId,
          cr_message = ''Order sent to IBKR (acceptance/fill is async via EWrapper callbacks)''\<rparr>,
        (g1, calls @ [(orderId, ?c, ?ord)]))"
      using SendOrder_accepting [OF assms q] by blast
    have call: "ChineseStrategy_PlaceMarketOrder_Impl (recording gw) mo (g, calls) =
       SendOrder (recording gw) ?c ?ord (g, calls)"
      by (simp add: ChineseStrategy_PlaceMarketOrder_Impl_def mo ActionFromBuy_def)
    obtain new g2 where ih:
      "close_loop (recording gw) positions (sent + 1) (orderIds @ [orderId])
          (g1, calls @ [(orderId, ?c, ?ord)]) =
        (sent + 1 + int (length new), (orderIds @ [orderId]) @ map fst new,
          (g2, (calls @ [(orderId, ?c, ?ord)]) @ new))"
      "map snd new = map ?req (filter ?keep positions)"
      using Cons.IH [of "sent + 1" "orderIds @ [orderId]" g1 "calls @ [(orderId, ?c, ?ord)]"] by blast
    have "close_loop (recording gw) (p # positions) sent orderIds (g, calls) =
       (sent + int (length ((orderId, ?c, ?ord) # new)),
        orderIds @ map fst ((orderId, ?c, ?ord) # new),
        (g2, calls @ ((orderId, ?c, ?ord) # new)))"
      using Some call s ih(1) by simp
    moreover have "map snd ((orderId, ?c, ?ord) # new) = map ?req (filter ?keep (p # positions))"
      using keep ih(2) by simp
    ultimately show ?thesis by blast
  qed
qed

lemma recording_snapshot:
  "getOpenPositionsSnapshot (recording gw) (g, calls) =
     (fst (getOpenPositionsSnapshot gw g), (snd (getOpenPositionsSnapshot gw g), calls))"
  by (simp add: recording_def split: prod.splits)

lemma close_all_accepting:
  assumes "accepts_all gw" "getOpenPositionsSnapshot gw g = (Inr positions, g1)"
  shows "\<exists>new g2. ChineseStrategy_CloseAllPositions_Impl (recording gw) (g, calls) =
            (\<lparr>pc_ok = True, pc_closeOrdersSent = int (length new), pc_orderIds = map fst new,
              pc_message = ''CloseAllPositions: sent '' @ to_string (int (length new)) @
                           '' market close orders.''\<rparr>, (g2, calls @ new)) \<and>
          map snd new =
            map (\<lambda>p. (BuildContract (op_instrument p),
                       \<lparr>o_action = (if dlt (op_position p) (Finite 0) then ''BUY'' else ''SELL''),
                        o_orderType = ''MKT'', o_totalQuantity = fabs (op_position p),
                        o_tif = ''DAY'', o_auxPrice = None, o_lmtPrice = None\<rparr>))
              (filter (\<lambda>p. \<not> dlt (fabs (op_position p)) lit_1e_12) positions)"
proof -
  obtain new g2 where l: "close_loop (recording gw) positions 0 [] (g1, calls) =
            (0 + int (length new), [] @ map fst new, (g2, calls @ new))"
    and m: "map snd new =
            map (\<lambda>p. (BuildContract (op_instrument p),
                       \<lparr>o_action = (if dlt (op_position p) (Finite 0) then ''BUY'' else ''SELL''),
                        o_orderType = ''MKT'', o_totalQuantity = fabs (op_position p),
                        o_tif = ''DAY'', o_auxPrice = None, o_lmtPrice = None\<rparr>))
              (filter (\<lambda>p. \<not> dlt (fabs (op_position p)) lit_1e_12) positions)"
    using close_loop_accepting [OF assms(1), of positions 0 "[]" g1 calls] by blast
  have "ChineseStrategy_CloseAllPositions_Impl (recording gw) (g, calls) =
            (\<lparr>pc_ok = True, pc_closeOrdersSent = int (length new), pc_orderIds = map fst new,
              pc_message = ''CloseAllPositions: sent '' @ to_string (int (length new)) @
                           '' market close orders.''\<rparr>, (g2, calls @ new))"
    using l assms(2) by (simp add: ChineseStrategy_CloseAllPositions_Impl_def recording_snapshot)
  with m show ?thesis by blast
qed

text \<open>
  Claim C6. When the position-snapshot fetch itself fails, \<^verbatim>\<open>CloseAllPositions_Impl\<close>
  returns \<^verbatim>\<open>ok = false\<close> with the message \<^verbatim>\<open>"Failed to fetch positions: "\<close> followed by
  the exception's text, no order count and no order ids; the gateway is left in the state
  the failed fetch left it in, and a recording gateway has received no \<^verbatim>\<open>placeOrder\<close>
  call.
\<close>

theorem snapshot_failure_aborts_sweep:
  assumes "getOpenPositionsSnapshot gw g = (Inl e, g1)"
  shows "ChineseStrategy_CloseAllPositions_Impl gw g =
           (\<lparr>pc_ok = False, pc_closeOrdersSent = 0, pc_orderIds = [],
             pc_message = ''Failed to fetch positions: '' @ what e\<rparr>, g1) \<and>
         ChineseStrategy_CloseAllPositions_Impl (recording gw) (g, calls) =
           (\<lparr>pc_ok = False, pc_closeOrdersSent = 0, pc_orderIds = [],
             pc_message = ''Failed to fetch positions: '' @ what e\<rparr>, (g1, calls))"
  using assms by (simp add: ChineseStrategy_CloseAllPositions_Impl_def recording_snapshot)

theorem snapshot_failure_aborts_sweep_witness:
  "ChineseStrategy_CloseAllPositions_Impl (recording (sim_gateway (\<lambda>s. False)))
     (\<lparr>sim_next = 7, sim_snapshot = Inl (std_exception ''not connected'')\<rparr>, []) =
   (\<lparr>pc_ok = False, pc_closeOrdersSent = 0, pc_orderIds = [],
     pc_message = ''Failed to fetch positions: not connected''\<rparr>,
    (\<lparr>sim_next = 7, sim_snapshot = Inl (std_exception ''not connected'')\<rparr>, []))"
proof -
  have h: "getOpenPositionsSnapshot (sim_gateway (\<lambda>s. False))
             \<lparr>sim_next = 7, sim_snapshot = Inl (std_exception ''not connected'')\<rparr> =
           (Inl (std_exception ''not connected''),
            \<lparr>sim_next = 7, sim_snapshot = Inl (std_exception ''not connected'')\<rparr>)"
    by (simp add: sim_gateway_def)
  show ?thesis using snapshot_failure_aborts_sweep [OF h, of "[]"] by simp
qed

lemma close_loop_results:
  "fst (close_loop gw positions sent orderIds g) =
     sent + int (length (filter cr_ok (sweep_results gw positions g))) \<and>
   fst (snd (close_loop gw positions sent orderIds g)) =
     orderIds @ map cr_orderId (filter cr_ok (sweep_results gw positions g))"
proof (induction positions arbitrary: sent orderIds g)
  case Nil
  show ?case by simp
next
  case (Cons p positions)
  show ?case
  proof (cases "closing_order p")
    case None
    with Cons.IH [of sent orderIds g] show ?thesis by simp
  next
    case (Some mo)
    obtain res g1 where r: "ChineseStrategy_PlaceMarketOrder_Impl gw mo g = (res, g1)"
      by (cases "ChineseStrategy_PlaceMarketOrder_Impl gw mo g")
    show ?thesis
    proof (cases "cr_ok res")
      case True
      with Some r Cons.IH [of "sent + 1" "orderIds @ [cr_orderId res]" g1] show ?thesis by simp
    next
      case False
      with Some r Cons.IH [of sent orderIds g1] show ?thesis by simp
    qed
  qed
qed

lemma rejects_all_sweep_results:
  "rejects_all gw \<Longrightarrow> res \<in> set (sweep_results gw positions g) \<Longrightarrow> \<not> cr_ok res"
proof (induction positions arbitrary: g)
  case Nil
  then show ?case by simp
next
  case (Cons p positions)
  show ?case
  proof (cases "closing_order p")
    case None
    with Cons show ?thesis by simp
  next
    case (Some mo)
    obtain r g1 where r: "ChineseStrategy_PlaceMarketOrder_Impl gw mo g = (r, g1)"
      by (cases "ChineseStrategy_PlaceMarketOrder_Impl gw mo g")
    have "\<not> cr_ok (fst (ChineseStrategy_PlaceMarketOrder_Impl gw mo g))"
      using Cons.prems(1) unfolding rejects_all_def ChineseStrategy_PlaceMarketOrder_Impl_def
      by blast
    with r have "\<not> cr_ok r" by simp
    with Some r Cons show ?thesis by auto
  qed
qed

text \<open>
  Claim C7. Over an empty snapshot, and over any snapshot for which every close order of
  the sweep comes back with \<^verbatim>\<open>ok = false\<close>, \<^verbatim>\<open>CloseAllPositions_Impl\<close> returns
  \<^verbatim>\<open>ok = true\<close> with \<^verbatim>\<open>closeOrdersSent = 0\<close>, no order ids and the message for zero
  orders. The broker may well accept other orders, or the same ones at another time.
\<close>

theorem sweep_without_accepted_close:
  assumes "getOpenPositionsSnapshot gw g = (Inr positions, g1)"
    and "positions = [] \<or> (\<forall>res \<in> set (sweep_results gw positions g1). \<not> cr_ok res)"
  shows "fst (ChineseStrategy_CloseAllPositions_Impl gw g) =
           \<lparr>pc_ok = True, pc_closeOrdersSent = 0, pc_orderIds = [],
            pc_message = ''CloseAllPositions: sent 0 market close orders.''\<rparr>"
proof -
  from assms(2) have none: "filter cr_ok (sweep_results gw positions g1) = []"
    by (auto simp: filter_empty_conv)
  obtain sent orderIds g2 where l: "close_loop gw positions 0 [] g1 = (sent, orderIds, g2)"
    by (cases "close_loop gw positions 0 [] g1") auto
  from close_loop_results [of gw positions 0 "[]" g1] none l
  have "sent = 0" and "orderIds = []" by simp_all
  with l assms(1) show ?thesis
    by (simp add: ChineseStrategy_CloseAllPositions_Impl_def to_string_def dec_digits.simps
        digit_char_def)
qed

lemma rejects_all_sim: "rejects_all (sim_gateway (\<lambda>s. True))"
  by (simp add: rejects_all_def SendOrder_def sim_gateway_def)

theorem sweep_without_accepted_close_witness:
  "fst (ChineseStrategy_CloseAllPositions_Impl (sim_gateway (\<lambda>s. False))
      \<lparr>sim_next = 7, sim_snapshot = Inr []\<rparr>) =
     \<lparr>pc_ok = True, pc_closeOrdersSent = 0, pc_orderIds = [],
      pc_message = ''CloseAllPositions: sent 0 market close orders.''\<rparr> \<and>
   fst (ChineseStrategy_CloseAllPositions_Impl (sim_gateway (\<lambda>s. True))
      \<lparr>sim_next = 7,
        sim_snapshot = Inr [holding ''600519'' (Finite 100), holding ''IF'' (Finite (- 2))]\<rparr>) =
     \<lparr>pc_ok = True, pc_closeOrdersSent = 0, pc_orderIds = [],
      pc_message = ''CloseAllPositions: sent 0 market close orders.''\<rparr> \<and>
   sweep_results (sim_gateway (\<lambda>s. s = ''BAD''))
      [holding ''BAD'' (Finite 5), holding ''BAD'' (Finite (- 2))]
      \<lparr>sim_next = 7,
        sim_snapshot = Inr [holding ''BAD'' (Finite 5), holding ''BAD'' (Finite (- 2))]\<rparr> =
     [\<lparr>cr_ok = False, cr_orderId = - 1, cr_message = ''Failed to send order: rejected''\<rparr>,
      \<lparr>cr_ok = False, cr_orderId = - 1, cr_message = ''Failed to send order: rejected''\<rparr>] \<and>
   fst (ChineseStrategy_CloseAllPositions_Impl (sim_gateway (\<lambda>s. s = ''BAD''))
      \<lparr>sim_next = 7,
        sim_snapshot = Inr [holding ''BAD'' (Finite 5), holding ''BAD'' (Finite (- 2))]\<rparr>) =
     \<lparr>pc_ok = True, pc_closeOrdersSent = 0, pc_orderIds = [],
      pc_message = ''CloseAllPositions: sent 0 market close orders.''\<rparr> \<and>
   fst (ChineseStrategy_CloseAllPositions_Impl (sim_gateway (\<lambda>s. s = ''BAD''))
      \<lparr>sim_next = 7, sim_snapshot = Inr [holding ''GOOD'' (Finite 5)]\<rparr>) =
     \<lparr>pc_ok = True, pc_closeOrdersSent = 1, pc_orderIds = [7],
      pc_message = ''CloseAllPositions: sent 1 market close orders.''\<rparr>"
proof -
  let ?s0 = "\<lparr>sim_next = 7, sim_snapshot = Inr []\<rparr>"
  let ?ps = "[holding ''600519'' (Finite 100), holding ''IF'' (Finite (- 2))]"
  let ?s1 = "\<lparr>sim_next = 7, sim_snapshot = Inr ?ps\<rparr>"
  let ?bad = "[holding ''BAD'' (Finite 5), holding ''BAD'' (Finite (- 2))]"
  let ?s2 = "\<lparr>sim_next = 7, sim_snapshot = Inr ?bad\<rparr>"
  let ?rej = "\<lparr>cr_ok = False, cr_orderId = - 1, cr_message = ''Failed to send order: rejected''\<rparr>"
  have h0: "getOpenPositionsSnapshot (sim_gateway (\<lambda>s. False)) ?s0 = (Inr [], ?s0)"
    and h1: "getOpenPositionsSnapshot (sim_gateway (\<lambda>s. True)) ?s1 = (Inr ?ps, ?s1)"
    and h2: "getOpenPositionsSnapshot (sim_gateway (\<lambda>s. s = ''BAD'')) ?s2 = (Inr ?bad, ?s2)"
    by (simp_all add: sim_gateway_def)
  have r1: "?ps = [] \<or>
      (\<forall>res \<in> set (sweep_results (sim_gateway (\<lambda>s. True)) ?ps ?s1). \<not> cr_ok res)"
    using rejects_all_sweep_results [OF rejects_all_sim] by blast
  have sr: "sweep_results (sim_gateway (\<lambda>s. s = ''BAD'')) ?bad ?s2 = [?rej, ?rej]"
    by (simp add: closing_order_def holding_def lit_1e_12_def
        ChineseStrategy_PlaceMarketOrder_Impl_def SendOrder_def sim_gateway_def BuildContract_def
        stock_def)
  have r2: "?bad = [] \<or>
      (\<forall>res \<in> set (sweep_results (sim_gateway (\<lambda>s. s = ''BAD'')) ?bad ?s2). \<not> cr_ok res)"
    unfolding sr by simp
  have good: "fst (ChineseStrategy_CloseAllPositions_Impl (sim_gateway (\<lambda>s. s = ''BAD''))
      \<lparr>sim_next = 7, sim_snapshot = Inr [holding ''GOOD'' (Finite 5)]\<rparr>) =
     \<lparr>pc_ok = True, pc_closeOrdersSent = 1, pc_orderIds = [7],
      pc_message = ''CloseAllPositions: sent 1 market close orders.''\<rparr>"
    by (simp add: ChineseStrategy_CloseAllPositions_Impl_def closing_order_def holding_def
        lit_1e_12_def ChineseStrategy_PlaceMarketOrder_Impl_def SendOrder_def sim_gateway_def
        BuildContract_def stock_def to_string_def dec_digits.simps digit_char_def)
  from sweep_without_accepted_close [OF h0] sweep_without_accepted_close [OF h1 r1]
    sweep_without_accepted_close [OF h2 r2] sr good
  show ?thesis by simp
qed

text \<open>
  Claim C2. A snapshot of two positions, each above the threshold, of which the strategy's
  order for one fails (\<^verbatim>\<open>ok = false\<close>) and for the other succeeds, in either order: the
  sweep runs to its end and reports \<^verbatim>\<open>closeOrdersSent = 1\<close> with exactly the accepted
  order's id.
\<close>

theorem rejected_close_does_not_abort:
  assumes "getOpenPositionsSnapshot gw g = (Inr [p, q], g1)"
    and "closing_order p = Some mp" and "closing_order q = Some mq"
    and "ChineseStrategy_PlaceMarketOrder_Impl gw mp g1 = (r1, g2)"
    and "ChineseStrategy_PlaceMarketOrder_Impl gw mq g2 = (r2, g3)"
    and "cr_ok r1 \<noteq> cr_ok r2"
  shows "ChineseStrategy_CloseAllPositions_Impl gw g =
           (\<lparr>pc_ok = True, pc_closeOrdersSent = 1,
             pc_orderIds = [if cr_ok r1 then cr_orderId r1 else cr_orderId r2],
             pc_message = ''CloseAllPositions: sent 1 market close orders.''\<rparr>, g3)"
  using assms
  by (auto simp: ChineseStrategy_CloseAllPositions_Impl_def to_string_def dec_digits.simps digit_char_def)

theorem rejected_close_does_not_abort_witness:
  "ChineseStrategy_CloseAllPositions_Impl (sim_gateway (\<lambda>s. s = ''BAD''))
      \<lparr>sim_next = 7,
        sim_snapshot = Inr [holding ''BAD'' (Finite 5), holding ''GOOD'' (Finite (- 2))]\<rparr> =
     (\<lparr>pc_ok = True, pc_closeOrdersSent = 1, pc_orderIds = [8],
       pc_message = ''CloseAllPositions: sent 1 market close orders.''\<rparr>,
      \<lparr>sim_next = 9,
        sim_snapshot = Inr [holding ''BAD'' (Finite 5), holding ''GOOD'' (Finite (- 2))]\<rparr>) \<and>
   ChineseStrategy_CloseAllPositions_Impl (sim_gateway (\<lambda>s. s = ''BAD''))
      \<lparr>sim_next = 7,
        sim_snapshot = Inr [holding ''GOOD'' (Finite (- 2)), holding ''BAD'' (Finite 5)]\<rparr> =
     (\<lparr>pc_ok = True, pc_closeOrdersSent = 1, pc_orderIds = [7],
       pc_message = ''CloseAllPositions: sent 1 market close orders.''\<rparr>,
      \<lparr>sim_next = 9,
        sim_snapshot = Inr [holding ''GOOD'' (Finite (- 2)), holding ''BAD'' (Finite 5)]\<rparr>)"
proof -
  let ?gw = "sim_gateway (\<lambda>s. s = ''BAD'')"
  let ?bad = "holding ''BAD'' (Finite 5)" and ?good = "holding ''GOOD'' (Finite (- 2))"
  let ?mb = "\<lparr>cmo_instrument = stock ''BAD'', cmo_quantity = Finite 5, cmo_isBuy = False,
              cmo_tif = ''DAY''\<rparr>"
  let ?mg = "\<lparr>cmo_instrument = stock ''GOOD'', cmo_quantity = Finite 2, cmo_isBuy = True,
              cmo_tif = ''DAY''\<rparr>"
  let ?A = "[?bad, ?good]" and ?B = "[?good, ?bad]"
  let ?sa = "\<lambda>n. \<lparr>sim_next = n, sim_snapshot = Inr ?A\<rparr>"
  let ?sb = "\<lambda>n. \<lparr>sim_next = n, sim_snapshot = Inr ?B\<rparr>"
  let ?rej = "\<lparr>cr_ok = False, cr_orderId = - 1, cr_message = ''Failed to send order: rejected''\<rparr>"
  let ?acc = "\<lambda>n. \<lparr>cr_ok = True, cr_orderId = n,
      cr_message = ''Order sent to IBKR (acceptance/fill is async via EWrapper callbacks)''\<rparr>"
  have cb: "closing_order ?bad = Some ?mb" and cg: "closing_order ?good = Some ?mg"
    by (simp_all add: closing_order_def holding_def lit_1e_12_def)
  have sa: "getOpenPositionsSnapshot ?gw (?sa 7) = (Inr ?A, ?sa 7)"
    and sb: "getOpenPositionsSnapshot ?gw (?sb 7) = (Inr ?B, ?sb 7)"
    by (simp_all add: sim_gateway_def)
  have a1: "ChineseStrategy_PlaceMarketOrder_Impl ?gw ?mb (?sa 7) = (?rej, ?sa 8)"
    and a2: "ChineseStrategy_PlaceMarketOrder_Impl ?gw ?mg (?sa 8) = (?acc 8, ?sa 9)"
    and b1: "ChineseStrategy_PlaceMarketOrder_Impl ?gw ?mg (?sb 7) = (?acc 7, ?sb 8)"
    and b2: "ChineseStrategy_PlaceMarketOrder_Impl ?gw ?mb (?sb 8) = (?rej, ?sb 9)"
    by (simp_all add: ChineseStrategy_PlaceMarketOrder_Impl_def SendOrder_def sim_gateway_def
        BuildContract_def stock_def)
  show ?thesis
    using rejected_close_does_not_abort [OF sa cb cg a1 a2]
      rejected_close_does_not_abort [OF sb cg cb b1 b2]
    by simp
qed

lemma dgt_fabs_keep:
  "dgt (fabs q) lit_1e_12 \<Longrightarrow> \<not> dlt (fabs q) lit_1e_12"
  by (cases q) (auto simp: dgt_def lit_1e_12_def)

lemma dgt_fabs_sign:
  "dgt (fabs q) lit_1e_12 \<Longrightarrow> dgt q (Finite 0) \<Longrightarrow> \<not> dlt q (Finite 0)"
  by (cases q) (auto simp: dgt_def)

text \<open>
  Claim C3. Through a gateway that accepts all orders, a snapshot of \<open>N\<close> positions, each
  with \<open>|position| > 1e-12\<close>, makes the sweep place exactly \<open>N\<close> orders, the \<open>k\<close>-th for
  the \<open>k\<close>-th position: a market order, \<^verbatim>\<open>BUY\<close> for a negative position and \<^verbatim>\<open>SELL\<close>
  for a positive one, for the absolute value of the position, with \<^verbatim>\<open>DAY\<close> time in force.
  The result counts \<open>N\<close> orders and lists their ids in that order.
\<close>

theorem close_all_issues_one_order_per_position:
  assumes "accepts_all gw"
    and "getOpenPositionsSnapshot gw g = (Inr positions, g1)"
    and "\<forall>p \<in> set positions. dgt (fabs (op_position p)) lit_1e_12"
    and "ChineseStrategy_CloseAllPositions_Impl (recording gw) (g, []) = (out, (g2, calls))"
  shows "pc_ok out \<and> pc_closeOrdersSent out = int (length positions) \<and>
         length calls = length positions \<and> pc_orderIds out = map fst calls \<and>
         list_all2 (\<lambda>p (orderId, c, ord).
            c = BuildContract (op_instrument p) \<and> o_orderType ord = ''MKT'' \<and>
            (dlt (op_position p) (Finite 0) \<longrightarrow> o_action ord = ''BUY'') \<and>
            (dgt (op_position p) (Finite 0) \<longrightarrow> o_action ord = ''SELL'') \<and>
            o_totalQuantity ord = fabs (op_position p) \<and> o_tif ord = ''DAY'') positions calls"
proof -
  let ?req = "\<lambda>p. (BuildContract (op_instrument p),
                       \<lparr>o_action = (if dlt (op_position p) (Finite 0) then ''BUY'' else ''SELL''),
                        o_orderType = ''MKT'', o_totalQuantity = fabs (op_position p),
                        o_tif = ''DAY'', o_auxPrice = None, o_lmtPrice = None\<rparr>)"
  have all: "filter (\<lambda>p. \<not> dlt (fabs (op_position p)) lit_1e_12) positions = positions"
    using assms(3) by (simp add: dgt_fabs_keep)
  obtain new g2' where
    run: "ChineseStrategy_CloseAllPositions_Impl (recording gw) (g, []) =
            (\<lparr>pc_ok = True, pc_closeOrdersSent = int (length new), pc_orderIds = map fst new,
              pc_message = ''CloseAllPositions: sent '' @ to_string (int (length new)) @
                           '' market close orders.''\<rparr>, (g2', [] @ new))"
    and req: "map snd new = map ?req positions"
    using close_all_accepting [OF assms(1,2), of "[]"] unfolding all by blast
  from run assms(4) have out: "out = \<lparr>pc_ok = True, pc_closeOrdersSent = int (length new),
      pc_orderIds = map fst new,
      pc_message = ''CloseAllPositions: sent '' @ to_string (int (length new)) @
                           '' market close orders.''\<rparr>" and calls: "calls = new"
    by simp_all
  have len: "length calls = length positions"
    using arg_cong [OF req, of length] calls by simp
  have nth: "snd (calls ! k) = ?req (positions ! k)" if "k < length positions" for k
  proof -
    have "snd (calls ! k) = map snd calls ! k" using that len by simp
    also have "\<dots> = map ?req positions ! k" using req calls by simp
    also have "\<dots> = ?req (positions ! k)" using that by simp
    finally show ?thesis .
  qed
  have "list_all2 (\<lambda>p (orderId, c, ord).
            c = BuildContract (op_instrument p) \<and> o_orderType ord = ''MKT'' \<and>
            (dlt (op_position p) (Finite 0) \<longrightarrow> o_action ord = ''BUY'') \<and>
            (dgt (op_position p) (Finite 0) \<longrightarrow> o_action ord = ''SELL'') \<and>
            o_totalQuantity ord = fabs (op_position p) \<and> o_tif ord = ''DAY'') positions calls"
  proof (rule list_all2_all_nthI)
    show "length positions = length calls" using len by simp
  next
    fix k assume k: "k < length positions"
    then have big: "dgt (fabs (op_position (positions ! k))) lit_1e_12"
      using assms(3) by simp
    obtain orderId c ord where e: "calls ! k = (orderId, c, ord)" by (cases "calls ! k")
    with nth [OF k] have "(c, ord) = ?req (positions ! k)" by simp
    then show "(case calls ! k of (orderId, c, ord) \<Rightarrow>
            c = BuildContract (op_instrument (positions ! k)) \<and> o_orderType ord = ''MKT'' \<and>
            (dlt (op_position (positions ! k)) (Finite 0) \<longrightarrow> o_action ord = ''BUY'') \<and>
            (dgt (op_position (positions ! k)) (Finite 0) \<longrightarrow> o_action ord = ''SELL'') \<and>
            o_totalQuantity ord = fabs (op_position (positions ! k)) \<and> o_tif ord = ''DAY'')"
      using e dgt_fabs_sign [OF big] by auto
  qed
  then show ?thesis using out calls len by simp
qed

lemma accepts_all_sim: "accepts_all (sim_gateway (\<lambda>s. False))"
  by (simp add: accepts_all_def sim_gateway_def)

theorem close_all_issues_one_order_per_position_witness:
  "accepts_all (sim_gateway (\<lambda>s. False)) \<and>
   dgt (fabs (Finite 5)) lit_1e_12 \<and> dgt (fabs (Finite (- 3))) lit_1e_12 \<and>
   pc_ok \<lparr>pc_ok = True, pc_closeOrdersSent = 2, pc_orderIds = [7, 8],
          pc_message = ''CloseAllPositions: sent 2 market close orders.''\<rparr> \<and>
   pc_closeOrdersSent \<lparr>pc_ok = True, pc_closeOrdersSent = 2, pc_orderIds = [7, 8],
          pc_message = ''CloseAllPositions: sent 2 market close orders.''\<rparr> =
     int (length [holding ''A'' (Finite 5), holding ''B'' (Finite (- 3))]) \<and>
   list_all2 (\<lambda>p (orderId, c, ord).
            c = BuildContract (op_instrument p) \<and> o_orderType ord = ''MKT'' \<and>
            (dlt (op_position p) (Finite 0) \<longrightarrow> o_action ord = ''BUY'') \<and>
            (dgt (op_position p) (Finite 0) \<longrightarrow> o_action ord = ''SELL'') \<and>
            o_totalQuantity ord = fabs (op_position p) \<and> o_tif ord = ''DAY'')
     [holding ''A'' (Finite 5), holding ''B'' (Finite (- 3))]
     [(7, BuildContract (stock ''A''),
       \<lparr>o_action = ''SELL'', o_orderType = ''MKT'', o_totalQuantity = Finite 5, o_tif = ''DAY'',
        o_auxPrice = None, o_lmtPrice = None\<rparr>),
      (8, BuildContract (stock ''B''),
       \<lparr>o_action = ''BUY'', o_orderType = ''MKT'', o_totalQuantity = Finite 3, o_tif = ''DAY'',
        o_auxPrice = None, o_lmtPrice = None\<rparr>)]"
proof -
  let ?gw = "sim_gateway (\<lambda>s. False)"
  let ?ps = "[holding ''A'' (Finite 5), holding ''B'' (Finite (- 3))]"
  let ?s = "\<lambda>n. \<lparr>sim_next = n, sim_snapshot = Inr ?ps\<rparr>"
  let ?out = "\<lparr>pc_ok = True, pc_closeOrdersSent = 2, pc_orderIds = [7, 8],
          pc_message = ''CloseAllPositions: sent 2 market close orders.''\<rparr>"
  let ?calls = "[(7, BuildContract (stock ''A''),
       \<lparr>o_action = ''SELL'', o_orderType = ''MKT'', o_totalQuantity = Finite 5, o_tif = ''DAY'',
        o_auxPrice = None, o_lmtPrice = None\<rparr>),
      (8, BuildContract (stock ''B''),
       \<lparr>o_action = ''BUY'', o_orderType = ''MKT'', o_totalQuantity = Finite 3, o_tif = ''DAY'',
        o_auxPrice = None, o_lmtPrice = None\<rparr>)]"
  have acc: "accepts_all ?gw" by (rule accepts_all_sim)
  have snap: "getOpenPositionsSnapshot ?gw (?s 7) = (Inr ?ps, ?s 7)"
    by (simp add: sim_gateway_def)
  have big: "\<forall>p \<in> set ?ps. dgt (fabs (op_position p)) lit_1e_12"
    by (simp add: holding_def dgt_def lit_1e_12_def)
  have run: "ChineseStrategy_CloseAllPositions_Impl (recording ?gw) (?s 7, []) =
      (?out, (?s 9, ?calls))"
    by (simp add: ChineseStrategy_CloseAllPositions_Impl_def recording_def sim_gateway_def
        closing_order_def holding_def lit_1e_12_def ChineseStrategy_PlaceMarketOrder_Impl_def
        SendOrder_def ActionFromBuy_def to_string_def dec_digits.simps digit_char_def)
  have "dgt (fabs (Finite 5)) lit_1e_12 \<and> dgt (fabs (Finite (- 3))) lit_1e_12"
    by (simp add: dgt_def lit_1e_12_def)
  then show ?thesis
    using acc close_all_issues_one_order_per_position [OF acc snap big run] by simp
qed

lemma closing_order_dle:
  "op_position p \<noteq> NaN \<Longrightarrow> (closing_order p \<noteq> None) = dle lit_1e_12 (fabs (op_position p))"
  by (cases "op_position p") (auto simp: closing_order_def lit_1e_12_def Let_def)

text \<open>
  Claim C8, as the code has it. The loop skips a position exactly when
  \<open>|position| < 1e-12\<close>; so an order is built when \<open>|position| \<ge> 1e-12\<close> (and for a NaN,
  for which no comparison holds). Through a gateway that accepts all orders the orders
  placed are those of the positions not skipped, in snapshot order. A position of exactly
  \<open>1e-12\<close> is closed, not skipped.
\<close>

theorem closing_order_threshold:
  assumes "accepts_all gw"
    and "getOpenPositionsSnapshot gw g = (Inr positions, g1)"
    and "ChineseStrategy_CloseAllPositions_Impl (recording gw) (g, []) = (out, (g2, calls))"
  shows "map snd calls =
           map (\<lambda>p. (BuildContract (op_instrument p),
                      \<lparr>o_action = (if dlt (op_position p) (Finite 0) then ''BUY'' else ''SELL''),
                       o_orderType = ''MKT'', o_totalQuantity = fabs (op_position p),
                       o_tif = ''DAY'', o_auxPrice = None, o_lmtPrice = None\<rparr>))
             (filter (\<lambda>p. \<not> dlt (fabs (op_position p)) lit_1e_12) positions) \<and>
         (\<forall>p. (closing_order p = None) = dlt (fabs (op_position p)) lit_1e_12) \<and>
         (\<forall>p. op_position p \<noteq> NaN \<longrightarrow>
              (closing_order p \<noteq> None) = dle lit_1e_12 (fabs (op_position p)))"
proof -
  obtain new g2' where
    run: "ChineseStrategy_CloseAllPositions_Impl (recording gw) (g, []) =
            (\<lparr>pc_ok = True, pc_closeOrdersSent = int (length new), pc_orderIds = map fst new,
              pc_message = ''CloseAllPositions: sent '' @ to_string (int (length new)) @
                           '' market close orders.''\<rparr>, (g2', [] @ new))"
    and req: "map snd new =
           map (\<lambda>p. (BuildContract (op_instrument p),
                      \<lparr>o_action = (if dlt (op_position p) (Finite 0) then ''BUY'' else ''SELL''),
                       o_orderType = ''MKT'', o_totalQuantity = fabs (op_position p),
                       o_tif = ''DAY'', o_auxPrice = None, o_lmtPrice = None\<rparr>))
             (filter (\<lambda>p. \<not> dlt (fabs (op_position p)) lit_1e_12) positions)"
    using close_all_accepting [OF assms(1,2), of "[]"] by blast
  from run assms(3) have "calls = new" by simp
  with req show ?thesis
    using closing_order_None closing_order_dle by blast
qed

theorem closing_order_threshold_witness:
  "accepts_all (sim_gateway (\<lambda>s. False)) \<and>
   map snd [(7 :: int, BuildContract (stock ''B''),
       \<lparr>o_action = ''SELL'', o_orderType = ''MKT'', o_totalQuantity = lit_1e_12, o_tif = ''DAY'',
        o_auxPrice = None, o_lmtPrice = None\<rparr>)] =
     map (\<lambda>p. (BuildContract (op_instrument p),
                \<lparr>o_action = (if dlt (op_position p) (Finite 0) then ''BUY'' else ''SELL''),
                 o_orderType = ''MKT'', o_totalQuantity = fabs (op_position p),
                 o_tif = ''DAY'', o_auxPrice = None, o_lmtPrice = None\<rparr>))
       (filter (\<lambda>p. \<not> dlt (fabs (op_position p)) lit_1e_12)
          [holding ''A'' (Finite (1 / 10 ^ 13)), holding ''B'' lit_1e_12]) \<and>
   closing_order (holding ''A'' (Finite (1 / 10 ^ 13))) = None \<and>
   closing_order (holding ''B'' lit_1e_12) \<noteq> None"
proof -
  let ?gw = "sim_gateway (\<lambda>s. False)"
  let ?ps = "[holding ''A'' (Finite (1 / 10 ^ 13)), holding ''B'' lit_1e_12]"
  let ?s = "\<lambda>n. \<lparr>sim_next = n, sim_snapshot = Inr ?ps\<rparr>"
  let ?out = "\<lparr>pc_ok = True, pc_closeOrdersSent = 1, pc_orderIds = [7],
          pc_message = ''CloseAllPositions: sent 1 market close orders.''\<rparr>"
  let ?calls = "[(7 :: int, BuildContract (stock ''B''),
       \<lparr>o_action = ''SELL'', o_orderType = ''MKT'', o_totalQuantity = lit_1e_12, o_tif = ''DAY'',
        o_auxPrice = None, o_lmtPrice = None\<rparr>)]"
  have acc: "accepts_all ?gw" by (rule accepts_all_sim)
  have snap: "getOpenPositionsSnapshot ?gw (?s 7) = (Inr ?ps, ?s 7)"
    by (simp add: sim_gateway_def)
  have run: "ChineseStrategy_CloseAllPositions_Impl (recording ?gw) (?s 7, []) =
      (?out, (?s 8, ?calls))"
    by (simp add: ChineseStrategy_CloseAllPositions_Impl_def recording_def sim_gateway_def
        closing_order_def holding_def lit_1e_12_def ChineseStrategy_PlaceMarketOrder_Impl_def
        SendOrder_def ActionFromBuy_def to_string_def dec_digits.simps digit_char_def)
  have small: "dlt (fabs (op_position (holding ''A'' (Finite (1 / 10 ^ 13))))) lit_1e_12"
    and edge: "\<not> dlt (fabs (op_position (holding ''B'' lit_1e_12))) lit_1e_12"
    by (simp_all add: holding_def lit_1e_12_def)
  note inst = closing_order_threshold [OF acc snap run]
  from inst have c1: "map snd ?calls =
     map (\<lambda>p. (BuildContract (op_instrument p),
                \<lparr>o_action = (if dlt (op_position p) (Finite 0) then ''BUY'' else ''SELL''),
                 o_orderType = ''MKT'', o_totalQuantity = fabs (op_position p),
                 o_tif = ''DAY'', o_auxPrice = None, o_lmtPrice = None\<rparr>))
       (filter (\<lambda>p. \<not> dlt (fabs (op_position p)) lit_1e_12) ?ps)"
    by (rule conjunct1)
  from inst have c2: "\<forall>p. (closing_order p = None) = dlt (fabs (op_position p)) lit_1e_12"
    by blast
  from c2 small have a: "closing_order (holding ''A'' (Finite (1 / 10 ^ 13))) = None"
    by blast
  from c2 edge have b: "closing_order (holding ''B'' lit_1e_12) \<noteq> None"
    by blast
  from acc c1 a b show ?thesis by (intro conjI)
qed

theorem closing_order_threshold_counterexample:
  "\<not> dgt (fabs lit_1e_12) lit_1e_12 \<and>
   closing_order (holding ''B'' lit_1e_12) =
     Some \<lparr>cmo_instrument = stock ''B'', cmo_quantity = lit_1e_12, cmo_isBuy = False,
           cmo_tif = ''DAY''\<rparr> \<and>
   ChineseStrategy_CloseAllPositions_Impl (recording (sim_gateway (\<lambda>s. False)))
     (\<lparr>sim_next = 7, sim_snapshot = Inr [holding ''B'' lit_1e_12]\<rparr>, []) =
   (\<lparr>pc_ok = True, pc_closeOrdersSent = 1, pc_orderIds = [7],
     pc_message = ''CloseAllPositions: sent 1 market close orders.''\<rparr>,
    (\<lparr>sim_next = 8, sim_snapshot = Inr [holding ''B'' lit_1e_12]\<rparr>,
     [(7, BuildContract (stock ''B''),
       \<lparr>o_action = ''SELL'', o_orderType = ''MKT'', o_totalQuantity = lit_1e_12, o_tif = ''DAY'',
        o_auxPrice = None, o_lmtPrice = None\<rparr>)]))"
  by (simp add: ChineseStrategy_CloseAllPositions_Impl_def recording_def sim_gateway_def
        closing_order_def holding_def lit_1e_12_def ChineseStrategy_PlaceMarketOrder_Impl_def
        SendOrder_def ActionFromBuy_def to_string_def dec_digits.simps digit_char_def dgt_def)

subsection \<open>Order placement of ChineseStrategy\<close>

lemma SendOrder_forwards:
  assumes "nextOrderId gw g = (Inr orderId, g1)" "\<not> dle (o_totalQuantity ord) (Finite 0)"
  shows "snd (snd (SendOrder (recording gw) c ord (g, calls))) = calls @ [(orderId, c, ord)]"
  using assms by (simp add: SendOrder_recording)

text \<open>
  Claim C9, as the code has it. When the gateway hands out an order id, a market or short
  order with a quantity \<open>> 0\<close>, and a stop or limit order with a quantity \<open>> 0\<close> and a
  price \<open>> 0\<close>, reaches \<^verbatim>\<open>placeOrder\<close> under that id, whatever the instrument's symbol
  is: \<^verbatim>\<open>BuildContract\<close> copies the symbol, empty or not, and no path looks at it.
\<close>

theorem positive_quantity_is_forwarded:
  assumes "nextOrderId gw g = (Inr orderId, g1)"
  shows "(dgt (cmo_quantity m) (Finite 0) \<longrightarrow>
            snd (snd (ChineseStrategy_PlaceMarketOrder_Impl (recording gw) m (g, calls))) =
              calls @ [(orderId, BuildContract (cmo_instrument m),
                \<lparr>o_action = ActionFromBuy (cmo_isBuy m), o_orderType = ''MKT'',
                 o_totalQuantity = cmo_quantity m, o_tif = cmo_tif m,
                 o_auxPrice = None, o_lmtPrice = None\<rparr>)]) \<and>
         (dgt (csh_quantity sh) (Finite 0) \<longrightarrow>
            snd (snd (ChineseStrategy_PlaceShortOrder_Impl (recording gw) sh (g, calls))) =
              calls @ [(orderId, BuildContract (csh_instrument sh),
                \<lparr>o_action = ''SELL'', o_orderType = ''MKT'',
                 o_totalQuantity = csh_quantity sh, o_tif = csh_tif sh,
                 o_auxPrice = None, o_lmtPrice = None\<rparr>)]) \<and>
         (dgt (cso_quantity so) (Finite 0) \<and> dgt (cso_stopPrice so) (Finite 0) \<longrightarrow>
            snd (snd (ChineseStrategy_PlaceStopOrder_Impl (recording gw) so (g, calls))) =
              calls @ [(orderId, BuildContract (cso_instrument so),
                \<lparr>o_action = ActionFromBuy (cso_isBuy so), o_orderType = ''STP'',
                 o_totalQuantity = cso_quantity so, o_tif = cso_tif so,
                 o_auxPrice = Some (cso_stopPrice so), o_lmtPrice = None\<rparr>)]) \<and>
         (dgt (clo_quantity lo) (Finite 0) \<and> dgt (clo_limitPrice lo) (Finite 0) \<longrightarrow>
            snd (snd (ChineseStrategy_PlaceLimitOrder_Impl (recording gw) lo (g, calls))) =
              calls @ [(orderId, BuildContract (clo_instrument lo),
                \<lparr>o_action = ActionFromBuy (clo_isBuy lo), o_orderType = ''LMT'',
                 o_totalQuantity = clo_quantity lo, o_tif = clo_tif lo,
                 o_auxPrice = None, o_lmtPrice = Some (clo_limitPrice lo)\<rparr>)]) \<and>
         c_symbol (BuildContract i) = i_symbol i"
proof -
  have sym: "c_symbol (BuildContract i) = i_symbol i"
    by (simp add: BuildContract_def Let_def)
  show ?thesis
    using sym
    by (simp add: ChineseStrategy_PlaceMarketOrder_Impl_def ChineseStrategy_PlaceShortOrder_Impl_def
        ChineseStrategy_PlaceStopOrder_Impl_def ChineseStrategy_PlaceLimitOrder_Impl_def
        SendOrder_forwards [OF assms] dgt_not_dle)
qed

theorem positive_quantity_is_forwarded_witness:
  "dgt (Finite 1) (Finite 0) \<and>
   snd (snd (ChineseStrategy_PlaceMarketOrder_Impl (recording (sim_gateway (\<lambda>s. False)))
      \<lparr>cmo_instrument = stock [], cmo_quantity = Finite 1, cmo_isBuy = True, cmo_tif = ''DAY''\<rparr>
      (\<lparr>sim_next = 7, sim_snapshot = Inr []\<rparr>, []))) =
     [(7, BuildContract (stock []),
       \<lparr>o_action = ''BUY'', o_orderType = ''MKT'', o_totalQuantity = Finite 1, o_tif = ''DAY'',
        o_auxPrice = None, o_lmtPrice = None\<rparr>)] \<and>
   snd (snd (ChineseStrategy_PlaceShortOrder_Impl (recording (sim_gateway (\<lambda>s. False)))
      \<lparr>csh_instrument = stock [], csh_quantity = Finite 1, csh_tif = ''DAY''\<rparr>
      (\<lparr>sim_next = 7, sim_snapshot = Inr []\<rparr>, []))) =
     [(7, BuildContract (stock []),
       \<lparr>o_action = ''SELL'', o_orderType = ''MKT'', o_totalQuantity = Finite 1, o_tif = ''DAY'',
        o_auxPrice = None, o_lmtPrice = None\<rparr>)] \<and>
   snd (snd (ChineseStrategy_PlaceStopOrder_Impl (recording (sim_gateway (\<lambda>s. False)))
      \<lparr>cso_instrument = stock [], cso_quantity = Finite 1, cso_isBuy = False,
        cso_stopPrice = Finite 1, cso_tif = ''GTC''\<rparr>
      (\<lparr>sim_next = 7, sim_snapshot = Inr []\<rparr>, []))) =
     [(7, BuildContract (stock []),
       \<lparr>o_action = ''SELL'', o_orderType = ''STP'', o_totalQuantity = Finite 1, o_tif = ''GTC'',
        o_auxPrice = Some (Finite 1), o_lmtPrice = None\<rparr>)] \<and>
   snd (snd (ChineseStrategy_PlaceLimitOrder_Impl (recording (sim_gateway (\<lambda>s. False)))
      \<lparr>clo_instrument = stock [], clo_quantity = Finite 1, clo_isBuy = True,
        clo_limitPrice = Finite 1, clo_tif = ''DAY''\<rparr>
      (\<lparr>sim_next = 7, sim_snapshot = Inr []\<rparr>, []))) =
     [(7, BuildContract (stock []),
       \<lparr>o_action = ''BUY'', o_orderType = ''LMT'', o_totalQuantity = Finite 1, o_tif = ''DAY'',
        o_auxPrice = None, o_lmtPrice = Some (Finite 1)\<rparr>)] \<and>
   c_symbol (BuildContract (stock [])) = []"
proof -
  have n: "nextOrderId (sim_gateway (\<lambda>s. False)) \<lparr>sim_next = 7, sim_snapshot = Inr []\<rparr> =
      (Inr 7, \<lparr>sim_next = 8, sim_snapshot = Inr []\<rparr>)"
    by (simp add: sim_gateway_def)
  have p: "dgt (Finite 1) (Finite 0)" by (simp add: dgt_def)
  show ?thesis
    using p positive_quantity_is_forwarded [OF n,
      of "\<lparr>cmo_instrument = stock [], cmo_quantity = Finite 1, cmo_isBuy = True, cmo_tif = ''DAY''\<rparr>"
         "[]"
         "\<lparr>csh_instrument = stock [], csh_quantity = Finite 1, csh_tif = ''DAY''\<rparr>"
         "\<lparr>cso_instrument = stock [], cso_quantity = Finite 1, cso_isBuy = False,
           cso_stopPrice = Finite 1, cso_tif = ''GTC''\<rparr>"
         "\<lparr>clo_instrument = stock [], clo_quantity = Finite 1, clo_isBuy = True,
           clo_limitPrice = Finite 1, clo_tif = ''DAY''\<rparr>"
         "stock []"]
    by (simp add: ActionFromBuy_def stock_def)
qed

theorem positive_quantity_is_forwarded_counterexample:
  "dgt (Finite 1) (Finite 0) \<and>
   ChineseStrategy_PlaceLimitOrder_Impl (recording (sim_gateway (\<lambda>s. False)))
      \<lparr>clo_instrument = stock ''IF'', clo_quantity = Finite 1, clo_isBuy = True,
        clo_limitPrice = Finite 0, clo_tif = ''DAY''\<rparr>
      (\<lparr>sim_next = 7, sim_snapshot = Inr []\<rparr>, []) =
     (\<lparr>cr_ok = False, cr_orderId = - 1, cr_message = ''LimitPrice must be > 0''\<rparr>,
      (\<lparr>sim_next = 7, sim_snapshot = Inr []\<rparr>, [])) \<and>
   ChineseStrategy_PlaceStopOrder_Impl (recording (sim_gateway (\<lambda>s. False)))
      \<lparr>cso_instrument = stock ''IF'', cso_quantity = Finite 1, cso_isBuy = False,
        cso_stopPrice = Finite 0, cso_tif = ''GTC''\<rparr>
      (\<lparr>sim_next = 7, sim_snapshot = Inr []\<rparr>, []) =
     (\<lparr>cr_ok = False, cr_orderId = - 1, cr_message = ''StopPrice must be > 0''\<rparr>,
      (\<lparr>sim_next = 7, sim_snapshot = Inr []\<rparr>, [])) \<and>
   ChineseStrategy_PlaceMarketOrder_Impl (recording offline_gateway)
      \<lparr>cmo_instrument = stock ''IF'', cmo_quantity = Finite 1, cmo_isBuy = True,
        cmo_tif = ''DAY''\<rparr> ((), []) =
     (\<lparr>cr_ok = False, cr_orderId = - 1,
       cr_message = ''Failed to send order: not connected''\<rparr>, ((), []))"
  by (simp add: dgt_def ChineseStrategy_PlaceLimitOrder_Impl_def
      ChineseStrategy_PlaceStopOrder_Impl_def ChineseStrategy_PlaceMarketOrder_Impl_def
      SendOrder_def recording_def offline_gateway_def)

subsection \<open>The order-result parser of the Alpaca adapter\<close>

lemma find_str_None: "(find_str s key = None) = (\<not> sublist key s)"
proof (induction s)
  case Nil
  show ?case by simp
next
  case (Cons x xs)
  then show ?case by (simp add: sublist_Cons_right)
qed

lemma find_str_bound: "find_str s key = Some i \<Longrightarrow> i + length key \<le> length s"
proof (induction s arbitrary: i)
  case Nil
  then show ?case by (simp split: if_splits)
next
  case (Cons x xs)
  show ?case
  proof (cases "prefix key (x # xs)")
    case True
    with Cons.prems have "i = 0" by simp
    with prefix_length_le [OF True] show ?thesis by simp
  next
    case False
    with Cons.prems obtain j where "find_str xs key = Some j" "i = Suc j" by auto
    with Cons.IH [of j] show ?thesis by simp
  qed
qed

text \<open>
  Claim C10. For a status in \<open>[200, 300)\<close> and a body in which the key \<^verbatim>\<open>"id":"\<close> does
  not occur, the parser returns \<^verbatim>\<open>accepted = true\<close> with an empty order id; and
  \<^verbatim>\<open>accepted\<close> is false exactly for a status outside \<open>[200, 300)\<close>.
\<close>

theorem parse_order_result_accepted:
  "(200 \<le> status \<and> status < 300 \<and> \<not> sublist id_key resp \<longrightarrow>
      parse_order_result status resp =
        \<lparr>or_orderId = [], or_accepted = True, or_message = ''Accepted''\<rparr>) \<and>
   (or_accepted (parse_order_result status resp) = False) = (status < 200 \<or> 300 \<le> status)"
proof -
  have "\<not> sublist id_key resp \<Longrightarrow> find_str resp id_key = None"
    by (simp add: find_str_None)
  then show ?thesis
    by (auto simp: parse_order_result_def Let_def)
qed

theorem parse_order_result_accepted_witness:
  "parse_order_result 201 ''{}'' = \<lparr>or_orderId = [], or_accepted = True, or_message = ''Accepted''\<rparr> \<and>
   \<not> sublist id_key ''{}'' \<and>
   or_accepted (parse_order_result 199 ''{}'') = False \<and>
   or_accepted (parse_order_result 300 ''{}'') = False \<and>
   or_accepted (parse_order_result 299 ''{}'') = True"
proof -
  have n: "\<not> sublist id_key ''{}''" by (simp add: id_key_def sublist_code)
  show ?thesis
    using n parse_order_result_accepted [of 201 "''{}''"] parse_order_result_accepted [of 199 "''{}''"]
      parse_order_result_accepted [of 300 "''{}''"] parse_order_result_accepted [of 299 "''{}''"]
    by simp
qed

lemma parse_example:
  "parse_order_result 200 ([CHR ''{'', CHR 0x22, CHR ''i'', CHR ''d'', CHR 0x22, CHR '':'', CHR 0x22,
      CHR ''a'', CHR ''7'', CHR 0x22, CHR ''}'']) =
    \<lparr>or_orderId = ''a7'', or_accepted = True, or_message = ''Accepted''\<rparr>"
  by (simp add: parse_order_result_def id_key_def find_char_def substr_def)

subsection \<open>The scheduler\<close>

text \<open>
  Claim C5. One pass of the loop, the clock read at its start. When \<^verbatim>\<open>IsMarketOpen\<close>
  returns true, the pick is the US market with the symbol \<^verbatim>\<open>SPY\<close>, and the pass is one
  run of \<^verbatim>\<open>GetFirst5MinCandle_US\<close> for \<^verbatim>\<open>SPY\<close> from the state \<^verbatim>\<open>IsMarketOpen\<close> left:
  its sample is what the pass writes, its exception is what leaves the pass, and the
  state it ends in is the state the pass ends in, so the sub-protocol has run once, not
  twice and not at all. When \<^verbatim>\<open>IsMarketOpen\<close> returns false and
  \<^verbatim>\<open>is_cn_market_open_utc\<close> is false for the time then read, the pick is \<^verbatim>\<open>NONE\<close> and
  the pass writes the no-market line and sleeps in the state that clock read left: no
  sample-fetch function has run.
\<close>

theorem cycle_selects_market:
  assumes "system_clock_now ext w = (nowUtc, w0)"
  shows "(api_IsMarketOpen alpaca w0 = (Inr True, w1) \<longrightarrow>
            pick_market alpaca ext w0 = (Inr \<lparr>mp_market = US, mp_symbol = ''SPY''\<rparr>, w1) \<and>
            filter is_SampleFetch (fst (snd (live_cycle alpaca ext w))) =
              [SampleFetch US ''SPY''] \<and>
            live_cycle alpaca ext w =
              (case GetFirst5MinCandle_US alpaca ext ''SPY'' w1 of
                 (Inl e, w2) \<Rightarrow> (Some e, [SampleFetch US ''SPY''], w2)
               | (Inr c, w2) \<Rightarrow>
                   (None,
                    [SampleFetch US ''SPY'',
                     Stdout (''[UTC '' @ to_iso8601_utc ext nowUtc @
                             ''] US open. First 5m candle (SPY): '' @
                             (if cd_ok c then ''OK'' else ''FAIL'') @ [CHR 0x0A] @ cd_raw c @
                             [CHR 0x0A]),
                     SleepFor 30], w2)) \<and>
            snd (snd (live_cycle alpaca ext w)) =
              snd (GetFirst5MinCandle_US alpaca ext ''SPY'' w1)) \<and>
         (api_IsMarketOpen alpaca w0 = (Inr False, w1) \<and>
          system_clock_now ext w1 = (t1, w2) \<and> \<not> is_cn_market_open_utc ext t1 \<longrightarrow>
            pick_market alpaca ext w0 = (Inr \<lparr>mp_market = NONE, mp_symbol = []\<rparr>, w2) \<and>
            filter is_SampleFetch (fst (snd (live_cycle alpaca ext w))) = [] \<and>
            live_cycle alpaca ext w =
              (None,
               [Stdout (''[UTC '' @ to_iso8601_utc ext nowUtc @ ''] No tracked market open.'' @
                        [CHR 0x0A]),
                SleepFor 30], w2))"
proof (intro conjI impI)
  assume o: "api_IsMarketOpen alpaca w0 = (Inr True, w1)"
  then show p: "pick_market alpaca ext w0 = (Inr \<lparr>mp_market = US, mp_symbol = ''SPY''\<rparr>, w1)"
    by (simp add: pick_market_def)
  obtain r w2 where f: "GetFirst5MinCandle_US alpaca ext ''SPY'' w1 = (r, w2)"
    by (cases "GetFirst5MinCandle_US alpaca ext ''SPY'' w1")
  show l: "live_cycle alpaca ext w =
              (case GetFirst5MinCandle_US alpaca ext ''SPY'' w1 of
                 (Inl e, w2) \<Rightarrow> (Some e, [SampleFetch US ''SPY''], w2)
               | (Inr c, w2) \<Rightarrow>
                   (None,
                    [SampleFetch US ''SPY'',
                     Stdout (''[UTC '' @ to_iso8601_utc ext nowUtc @
                             ''] US open. First 5m candle (SPY): '' @
                             (if cd_ok c then ''OK'' else ''FAIL'') @ [CHR 0x0A] @ cd_raw c @
                             [CHR 0x0A]),
                     SleepFor 30], w2))"
    using assms p f by (cases r) (simp_all add: live_cycle_def candle_line_def)
  show "filter is_SampleFetch (fst (snd (live_cycle alpaca ext w))) = [SampleFetch US ''SPY'']"
    unfolding l using f by (cases r) simp_all
  show "snd (snd (live_cycle alpaca ext w)) = snd (GetFirst5MinCandle_US alpaca ext ''SPY'' w1)"
    unfolding l using f by (cases r) simp_all
next
  assume c: "api_IsMarketOpen alpaca w0 = (Inr False, w1) \<and>
          system_clock_now ext w1 = (t1, w2) \<and> \<not> is_cn_market_open_utc ext t1"
  then show p: "pick_market alpaca ext w0 = (Inr \<lparr>mp_market = NONE, mp_symbol = []\<rparr>, w2)"
    by (simp add: pick_market_def)
  show l: "live_cycle alpaca ext w =
              (None,
               [Stdout (''[UTC '' @ to_iso8601_utc ext nowUtc @ ''] No tracked market open.'' @
                        [CHR 0x0A]),
                SleepFor 30], w2)"
    using assms p by (simp add: live_cycle_def)
  show "filter is_SampleFetch (fst (snd (live_cycle alpaca ext w))) = []"
    unfolding l by simp
qed

lemma sim_now: "system_clock_now (sim_externals b) w = (1767571200, w)"
  by (simp add: sim_externals_def)

theorem cycle_selects_market_witness:
  "pick_market (sim_api (Inr True) [Inr (200, ''{}''), Inr (200, ''[]''), Inr (200, ''{}'')])
      (sim_externals False) 0 = (Inr \<lparr>mp_market = US, mp_symbol = ''SPY''\<rparr>, 0) \<and>
   filter is_SampleFetch
     (fst (snd (live_cycle (sim_api (Inr True) [Inr (200, ''{}''), Inr (200, ''[]''), Inr (200, ''{}'')])
        (sim_externals False) 0))) = [SampleFetch US ''SPY''] \<and>
   GetFirst5MinCandle_US (sim_api (Inr True) [Inr (200, ''{}''), Inr (200, ''[]''), Inr (200, ''{}'')])
      (sim_externals False) ''SPY'' 0 = (Inr (Candle_ok_raw True ''{}''), 3) \<and>
   live_cycle (sim_api (Inr True) [Inr (200, ''{}''), Inr (200, ''[]''), Inr (200, ''{}'')])
      (sim_externals False) 0 =
     (None,
      [SampleFetch US ''SPY'',
       Stdout (''[UTC '' @ to_iso8601_utc (sim_externals False) 1767571200 @
               ''] US open. First 5m candle (SPY): '' @ ''OK'' @ [CHR 0x0A] @ ''{}'' @
               [CHR 0x0A]),
       SleepFor 30], 3) \<and>
   pick_market (sim_api (Inr False) []) (sim_externals False) 0 =
     (Inr \<lparr>mp_market = NONE, mp_symbol = []\<rparr>, 0) \<and>
   filter is_SampleFetch
     (fst (snd (live_cycle (sim_api (Inr False) []) (sim_externals False) 0))) = [] \<and>
   live_cycle (sim_api (Inr False) []) (sim_externals False) 0 =
     (None,
      [Stdout (''[UTC '' @ to_iso8601_utc (sim_externals False) 1767571200 @
               ''] No tracked market open.'' @ [CHR 0x0A]),
       SleepFor 30], 0)"
proof -
  let ?ext = "sim_externals False"
  let ?a = "sim_api (Inr True) [Inr (200, ''{}''), Inr (200, ''[]''), Inr (200, ''{}'')]"
  let ?b = "sim_api (Inr False) []"
  have oa: "api_IsMarketOpen ?a 0 = (Inr True, 0)" and ob: "api_IsMarketOpen ?b 0 = (Inr False, 0)"
    by (simp_all add: sim_api_def)
  have cn: "\<not> is_cn_market_open_utc ?ext 1767571200" by (simp add: sim_externals_def)
  have g: "GetFirst5MinCandle_US ?a ?ext ''SPY'' 0 = (Inr (Candle_ok_raw True ''{}''), 3)"
    by (simp add: GetFirst5MinCandle_US_def sim_api_def sim_now)
  from cycle_selects_market [OF sim_now, of ?a 0 0] oa
  have a: "pick_market ?a ?ext 0 = (Inr \<lparr>mp_market = US, mp_symbol = ''SPY''\<rparr>, 0) \<and>
      filter is_SampleFetch (fst (snd (live_cycle ?a ?ext 0))) = [SampleFetch US ''SPY''] \<and>
      live_cycle ?a ?ext 0 =
        (case GetFirst5MinCandle_US ?a ?ext ''SPY'' 0 of
                 (Inl e, w2) \<Rightarrow> (Some e, [SampleFetch US ''SPY''], w2)
               | (Inr c, w2) \<Rightarrow>
                   (None,
                    [SampleFetch US ''SPY'',
                     Stdout (''[UTC '' @ to_iso8601_utc ?ext 1767571200 @
                             ''] US open. First 5m candle (SPY): '' @
                             (if cd_ok c then ''OK'' else ''FAIL'') @ [CHR 0x0A] @ cd_raw c @
                             [CHR 0x0A]),
                     SleepFor 30], w2))"
    by blast
  then have a': "live_cycle ?a ?ext 0 =
     (None,
      [SampleFetch US ''SPY'',
       Stdout (''[UTC '' @ to_iso8601_utc ?ext 1767571200 @
               ''] US open. First 5m candle (SPY): '' @ ''OK'' @ [CHR 0x0A] @ ''{}'' @
               [CHR 0x0A]),
       SleepFor 30], 3)"
    unfolding g by (simp add: Candle_ok_raw_def)
  from cycle_selects_market [OF sim_now, of ?b 0 0 False 1767571200 0] ob sim_now [of False 0] cn
  have b: "pick_market ?b ?ext 0 = (Inr \<lparr>mp_market = NONE, mp_symbol = []\<rparr>, 0) \<and>
      filter is_SampleFetch (fst (snd (live_cycle ?b ?ext 0))) = [] \<and>
      live_cycle ?b ?ext 0 =
        (None,
         [Stdout (''[UTC '' @ to_iso8601_utc ?ext 1767571200 @
               ''] No tracked market open.'' @ [CHR 0x0A]),
          SleepFor 30], 0)"
    by blast
  from a a' g b show ?thesis by blast
qed





end
